theory Spec2Isabelle
  imports Main
begin

section \<open>Tag queries: data model (wql_nosql/tags.py)\<close>

text \<open>
  Python strings are modelled as \<^typ>\<open>string\<close> (lists of 8-bit characters), Python
  exceptions as values of \<open>error\<close>: a function that can raise returns \<open>error + 'a\<close>
  with \<open>Inl\<close> for the exception. \<open>ValueError\<close> and \<open>NotImplementedError\<close> carry their
  message; the messages of \<open>TypeError\<close> and \<open>AttributeError\<close> are not modelled.
\<close>

datatype error = ValueError string | TypeError | AttributeError | NotImplementedError string

datatype TagName = TagName (val: string)

definition to_string :: "TagName \<Rightarrow> string" where
  "to_string n = val n"

datatype CompareOp = Eq | Neq | Gt | Gte | Lt | Lte | Like

datatype ConjunctionOp = And | Or

text \<open>\<open>ConjunctionOp.negate\<close>.\<close>

fun negate_op :: "ConjunctionOp \<Rightarrow> ConjunctionOp" where
  "negate_op And = Or"
| "negate_op Or = And"

text \<open>
  A \<open>TagQuery\<close> object holds a variant string and a payload. The payload shapes are the
  ones the factories build: a (name, value) pair, a (name, values) pair, a list of names,
  a list of subqueries, one subquery. The constructor of the class checks nothing, so a
  node may carry any tag with any of these payloads; the factories build the nodes whose
  payload has the shape of their tag. (Python's empty list is \<open>Names []\<close> as well as
  \<open>Subqueries []\<close>.)
\<close>

datatype TagQuery = TagQuery (variant: string) (data: tq_data)
and tq_data =
    NameValue TagName string
  | NameValues TagName "string list"
  | Names "TagName list"
  | Subqueries "TagQuery list"
  | Subquery TagQuery

subsection \<open>The encoder contract and the traversal\<close>

text \<open>
  The six abstract primitives of \<open>TagQueryEncoder\<close>. An encoder object may keep state
  across calls (a parameter list, a placeholder counter), so every primitive takes the
  encoder state \<open>'s\<close> and returns it updated; \<open>'n\<close> and \<open>'v\<close> are the types of encoded
  names and values. A clause is a Python \<open>str\<close> or \<open>None\<close>. A primitive is taken to
  return: an exception raised inside an encoder's own primitive is not modelled.
\<close>

record ('n, 'v, 's) TagQueryEncoder =
  encode_name :: "TagName \<Rightarrow> 's \<Rightarrow> 'n \<times> 's"
  encode_value :: "string \<Rightarrow> 's \<Rightarrow> 'v \<times> 's"
  encode_op_clause :: "CompareOp \<Rightarrow> 'n \<Rightarrow> 'v \<Rightarrow> bool \<Rightarrow> 's \<Rightarrow> string option \<times> 's"
  encode_in_clause :: "'n \<Rightarrow> 'v list \<Rightarrow> bool \<Rightarrow> 's \<Rightarrow> string option \<times> 's"
  encode_exist_clause :: "'n \<Rightarrow> bool \<Rightarrow> 's \<Rightarrow> string option \<times> 's"
  encode_conj_clause :: "ConjunctionOp \<Rightarrow> string list \<Rightarrow> 's \<Rightarrow> string option \<times> 's"

text \<open>A computation that cannot raise, as one that can.\<close>

definition returns :: "'a \<times> 's \<Rightarrow> (error + 'a) \<times> 's" where
  "returns r = (Inr (fst r), snd r)"

definition encode_op ::
  "('n, 'v, 's) TagQueryEncoder \<Rightarrow> CompareOp \<Rightarrow> TagName \<Rightarrow> string \<Rightarrow> bool \<Rightarrow> 's \<Rightarrow> string option \<times> 's" where
  "encode_op enc op name value negate s =
     (let (enc_name, s1) = encode_name enc name s;
          (enc_value, s2) = encode_value enc value s1
      in encode_op_clause enc op enc_name enc_value negate s2)"

text \<open>The list comprehension \<open>[self.encode_value(v) for v in values]\<close>.\<close>

fun encode_values :: "('n, 'v, 's) TagQueryEncoder \<Rightarrow> string list \<Rightarrow> 's \<Rightarrow> 'v list \<times> 's" where
  "encode_values enc [] s = ([], s)"
| "encode_values enc (v # vs) s =
     (let (enc_v, s1) = encode_value enc v s;
          (enc_vs, s2) = encode_values enc vs s1
      in (enc_v # enc_vs, s2))"

definition encode_in ::
  "('n, 'v, 's) TagQueryEncoder \<Rightarrow> TagName \<Rightarrow> string list \<Rightarrow> bool \<Rightarrow> 's \<Rightarrow> string option \<times> 's" where
  "encode_in enc name values negate s =
     (let (enc_name, s1) = encode_name enc name s;
          (enc_values, s2) = encode_values enc values s1
      in encode_in_clause enc enc_name enc_values negate s2)"

text \<open>Python truthiness of a clause: \<open>None\<close> and the empty string are falsy.\<close>

definition truthy :: "string option \<Rightarrow> bool" where
  "truthy c = (case c of None \<Rightarrow> False | Some t \<Rightarrow> t \<noteq> [])"

text \<open>
  \<open>encode_exist_each\<close> is the list comprehension
  \<open>[self.encode_exist([name], negate) for name in names]\<close>, evaluated left to right.
\<close>

function encode_exist ::
  "('n, 'v, 's) TagQueryEncoder \<Rightarrow> TagName list \<Rightarrow> bool \<Rightarrow> 's \<Rightarrow> string option \<times> 's"
and encode_exist_each ::
  "('n, 'v, 's) TagQueryEncoder \<Rightarrow> TagName list \<Rightarrow> bool \<Rightarrow> 's \<Rightarrow> string option list \<times> 's"
where
  "encode_exist enc names negate s =
     (if names = [] then (None, s)
      else if length names = 1 then
        (let (enc_name, s1) = encode_name enc (names ! 0) s
         in encode_exist_clause enc enc_name negate s1)
      else
        (let (clauses, s1) = encode_exist_each enc names negate s
         in encode_conj_clause enc And (map the (filter truthy clauses)) s1))"
| "encode_exist_each enc [] negate s = ([], s)"
| "encode_exist_each enc (name # rest) negate s =
     (let (c, s1) = encode_exist enc [name] negate s;
          (cs, s2) = encode_exist_each enc rest negate s1
      in (c # cs, s2))"
  by pat_completeness auto
termination
  by (relation "measure (\<lambda>x. case x of
        Inl (enc, names, negate, s) \<Rightarrow> (if length names \<le> 1 then 0 else 2 * length names + 2)
      | Inr (enc, names, negate, s) \<Rightarrow> 2 * length names + 1)")
     (auto simp: le_Suc_eq)

text \<open>
  \<open>encode_conj_loop\<close> is the \<open>for\<close> loop of \<open>encode_conj\<close>, with the list \<open>clauses\<close>
  built so far as an argument. An exception raised while a child is encoded ends the loop.

  The traversal is modelled on nodes whose payload has the shape of their tag. On a node
  with a tag of the closed set and a payload of another shape, Python raises TypeError
  or AttributeError for most payloads, and for the others hands items of the wrong type
  to the encoder's primitives, whose behaviour there is the encoder's own. The model
  answers \<open>Inl TypeError\<close> for every such node; the properties of faults below are
  stated for trees without such nodes (\<open>shaped\<close>).
\<close>

function (sequential) encode_query ::
  "('n, 'v, 's) TagQueryEncoder \<Rightarrow> TagQuery \<Rightarrow> bool \<Rightarrow> 's \<Rightarrow> (error + string option) \<times> 's"
and encode_conj ::
  "('n, 'v, 's) TagQueryEncoder \<Rightarrow> ConjunctionOp \<Rightarrow> TagQuery list \<Rightarrow> bool \<Rightarrow> 's \<Rightarrow> (error + string option) \<times> 's"
and encode_conj_loop ::
  "('n, 'v, 's) TagQueryEncoder \<Rightarrow> TagQuery list \<Rightarrow> bool \<Rightarrow> string list \<Rightarrow> 's \<Rightarrow> (error + string list) \<times> 's"
where
  "encode_query enc (TagQuery tag d) negate s =
     (if tag = ''Eq'' then
        (case d of NameValue name value \<Rightarrow> returns (encode_op enc Eq name value negate s)
         | _ \<Rightarrow> (Inl TypeError, s))
      else if tag = ''Neq'' then
        (case d of NameValue name value \<Rightarrow> returns (encode_op enc Neq name value negate s)
         | _ \<Rightarrow> (Inl TypeError, s))
      else if tag = ''Gt'' then
        (case d of NameValue name value \<Rightarrow> returns (encode_op enc Gt name value negate s)
         | _ \<Rightarrow> (Inl TypeError, s))
      else if tag = ''Gte'' then
        (case d of NameValue name value \<Rightarrow> returns (encode_op enc Gte name value negate s)
         | _ \<Rightarrow> (Inl TypeError, s))
      else if tag = ''Lt'' then
        (case d of NameValue name value \<Rightarrow> returns (encode_op enc Lt name value negate s)
         | _ \<Rightarrow> (Inl TypeError, s))
      else if tag = ''Lte'' then
        (case d of NameValue name value \<Rightarrow> returns (encode_op enc Lte name value negate s)
         | _ \<Rightarrow> (Inl TypeError, s))
      else if tag = ''Like'' then
        (case d of NameValue name value \<Rightarrow> returns (encode_op enc Like name value negate s)
         | _ \<Rightarrow> (Inl TypeError, s))
      else if tag = ''In'' then
        (case d of NameValues name values \<Rightarrow> returns (encode_in enc name values negate s)
         | _ \<Rightarrow> (Inl TypeError, s))
      else if tag = ''Exist'' then
        (case d of Names names \<Rightarrow> returns (encode_exist enc names negate s)
         | _ \<Rightarrow> (Inl TypeError, s))
      else if tag \<in> set [''And'', ''Or''] then
        (case d of Subqueries subqueries \<Rightarrow>
             encode_conj enc (if tag = ''And'' then And else Or) subqueries negate s
         | _ \<Rightarrow> (Inl TypeError, s))
      else if tag = ''Not'' then
        (case d of Subquery q \<Rightarrow> encode_query enc q (\<not> negate) s
         | _ \<Rightarrow> (Inl TypeError, s))
      else (Inl (ValueError ''Unknown query variant''), s))"
| "encode_conj enc op subqueries negate s =
     (case encode_conj_loop enc subqueries negate [] s of
        (Inl e, s1) \<Rightarrow> (Inl e, s1)
      | (Inr clauses, s1) \<Rightarrow>
          returns (encode_conj_clause enc (if negate then negate_op op else op) clauses s1))"
| "encode_conj_loop enc [] negate clauses s = (Inr clauses, s)"
| "encode_conj_loop enc (q # rest) negate clauses s =
     (case encode_query enc q negate s of
        (Inl e, s1) \<Rightarrow> (Inl e, s1)
      | (Inr clause, s1) \<Rightarrow>
          encode_conj_loop enc rest negate
            (case clause of None \<Rightarrow> clauses | Some c \<Rightarrow> clauses @ [c]) s1)"
  by pat_completeness
     (simp_all only: prod.inject TagQuery.inject list.inject sum.inject
        Inl_Inr_False Inr_Inl_False list.distinct, blast+)
termination
  by (relation "measure (\<lambda>x. case x of
        Inl (enc, q, negate, s) \<Rightarrow> 2 * size q
      | Inr (Inl (enc, op, qs, negate, s)) \<Rightarrow> 2 * size_list size qs + 1
      | Inr (Inr (enc, qs, negate, clauses, s)) \<Rightarrow> 2 * size_list size qs)") auto

subsection \<open>The factories\<close>

definition TagQuery_Eq :: "TagName \<Rightarrow> string \<Rightarrow> TagQuery" where
  "TagQuery_Eq name value = TagQuery ''Eq'' (NameValue name value)"

definition TagQuery_Neq :: "TagName \<Rightarrow> string \<Rightarrow> TagQuery" where
  "TagQuery_Neq name value = TagQuery ''Neq'' (NameValue name value)"

definition TagQuery_Gt :: "TagName \<Rightarrow> string \<Rightarrow> TagQuery" where
  "TagQuery_Gt name value = TagQuery ''Gt'' (NameValue name value)"

definition TagQuery_Gte :: "TagName \<Rightarrow> string \<Rightarrow> TagQuery" where
  "TagQuery_Gte name value = TagQuery ''Gte'' (NameValue name value)"

definition TagQuery_Lt :: "TagName \<Rightarrow> string \<Rightarrow> TagQuery" where
  "TagQuery_Lt name value = TagQuery ''Lt'' (NameValue name value)"

definition TagQuery_Lte :: "TagName \<Rightarrow> string \<Rightarrow> TagQuery" where
  "TagQuery_Lte name value = TagQuery ''Lte'' (NameValue name value)"

definition TagQuery_Like :: "TagName \<Rightarrow> string \<Rightarrow> TagQuery" where
  "TagQuery_Like name value = TagQuery ''Like'' (NameValue name value)"

definition TagQuery_In :: "TagName \<Rightarrow> string list \<Rightarrow> TagQuery" where
  "TagQuery_In name values = TagQuery ''In'' (NameValues name values)"

definition TagQuery_Exist :: "TagName list \<Rightarrow> TagQuery" where
  "TagQuery_Exist names = TagQuery ''Exist'' (Names names)"

definition TagQuery_And :: "TagQuery list \<Rightarrow> TagQuery" where
  "TagQuery_And subqueries = TagQuery ''And'' (Subqueries subqueries)"

definition TagQuery_Or :: "TagQuery list \<Rightarrow> TagQuery" where
  "TagQuery_Or subqueries = TagQuery ''Or'' (Subqueries subqueries)"

definition TagQuery_Not :: "TagQuery \<Rightarrow> TagQuery" where
  "TagQuery_Not subquery = TagQuery ''Not'' (Subquery subquery)"

subsection \<open>Canonical serialization\<close>

text \<open>
  The values \<open>to_wql_dict\<close> builds: strings, lists and dictionaries, and a TagName object
  where an ill-shaped payload puts one in the place of a value. A dictionary is a list
  of key-value pairs in insertion order; every dictionary built here has at most one key.
\<close>

datatype wql = WStr string | WName TagName | WList "wql list" | WDict "(string \<times> wql) list"

text \<open>
  The message of the ValueError that unpacking a list of \<open>n\<close> items into two names
  raises, for \<open>n\<close> other than 2 (the wording of CPython up to 3.13).
\<close>

definition unpack_message :: "nat \<Rightarrow> string" where
  "unpack_message n =
     (if n = 0 then ''not enough values to unpack (expected 2, got 0)''
      else if n = 1 then ''not enough values to unpack (expected 2, got 1)''
      else ''too many values to unpack (expected 2)'')"

text \<open>
  \<open>name, value = self.data\<close> followed by the evaluation of \<open>name.to_string()\<close>: the key
  and the value of the mapping. A tuple payload has two items, whatever the second is. A
  list payload unpacks only when it has two items: for two names, the value is the
  second TagName object; for two subqueries, \<open>to_string\<close> is missing on the first
  (AttributeError). A single TagQuery is not iterable (TypeError).
\<close>

definition unpack_name_value :: "tq_data \<Rightarrow> error + string \<times> wql" where
  "unpack_name_value d =
     (case d of
        NameValue name value \<Rightarrow> Inr (to_string name, WStr value)
      | NameValues name values \<Rightarrow> Inr (to_string name, WList (map WStr values))
      | Names names \<Rightarrow>
          (case names of
             [name, value] \<Rightarrow> Inr (to_string name, WName value)
           | _ \<Rightarrow> Inl (ValueError (unpack_message (length names))))
      | Subqueries qs \<Rightarrow>
          (if length qs = 2 then Inl AttributeError
           else Inl (ValueError (unpack_message (length qs))))
      | Subquery q \<Rightarrow> Inl TypeError)"

text \<open>
  \<open>[name.to_string() for name in names]\<close> with \<open>names = self.data\<close>: a tuple payload
  fails on its second item and a non-empty list of subqueries on its first, which have
  no \<open>to_string\<close> (AttributeError); a single TagQuery is not iterable (TypeError).
\<close>

definition exist_names :: "tq_data \<Rightarrow> error + wql list" where
  "exist_names d =
     (case d of
        Names names \<Rightarrow> Inr (map (\<lambda>name. WStr (to_string name)) names)
      | Subqueries qs \<Rightarrow> (if qs = [] then Inr [] else Inl AttributeError)
      | NameValue name v \<Rightarrow> Inl AttributeError
      | NameValues name vs \<Rightarrow> Inl AttributeError
      | Subquery q \<Rightarrow> Inl TypeError)"

text \<open>
  In the And/Or branches a tuple or a non-empty list of names fails on its first item,
  which has no \<open>to_wql_dict\<close> (AttributeError); a single TagQuery is truthy and not
  iterable (TypeError). In the Not branch every payload but a TagQuery has no
  \<open>to_wql_dict\<close> (AttributeError).
\<close>

function (sequential) to_wql_dict :: "TagQuery \<Rightarrow> error + wql"
and to_wql_dict_each :: "TagQuery list \<Rightarrow> error + wql list"
where
  "to_wql_dict (TagQuery tag d) =
     (if tag = ''Eq'' then
        (case unpack_name_value d of
           Inl e \<Rightarrow> Inl e
         | Inr (k, x) \<Rightarrow> Inr (WDict [(k, x)]))
      else if tag = ''Neq'' then
        (case unpack_name_value d of
           Inl e \<Rightarrow> Inl e
         | Inr (k, x) \<Rightarrow> Inr (WDict [(k, WDict [(''$neq'', x)])]))
      else if tag = ''Gt'' then
        (case unpack_name_value d of
           Inl e \<Rightarrow> Inl e
         | Inr (k, x) \<Rightarrow> Inr (WDict [(k, WDict [(''$gt'', x)])]))
      else if tag = ''Gte'' then
        (case unpack_name_value d of
           Inl e \<Rightarrow> Inl e
         | Inr (k, x) \<Rightarrow> Inr (WDict [(k, WDict [(''$gte'', x)])]))
      else if tag = ''Lt'' then
        (case unpack_name_value d of
           Inl e \<Rightarrow> Inl e
         | Inr (k, x) \<Rightarrow> Inr (WDict [(k, WDict [(''$lt'', x)])]))
      else if tag = ''Lte'' then
        (case unpack_name_value d of
           Inl e \<Rightarrow> Inl e
         | Inr (k, x) \<Rightarrow> Inr (WDict [(k, WDict [(''$lte'', x)])]))
      else if tag = ''Like'' then
        (case unpack_name_value d of
           Inl e \<Rightarrow> Inl e
         | Inr (k, x) \<Rightarrow> Inr (WDict [(k, WDict [(''$like'', x)])]))
      else if tag = ''In'' then
        (case unpack_name_value d of
           Inl e \<Rightarrow> Inl e
         | Inr (k, x) \<Rightarrow> Inr (WDict [(k, WDict [(''$in'', x)])]))
      else if tag = ''Exist'' then
        (case exist_names d of
           Inl e \<Rightarrow> Inl e
         | Inr xs \<Rightarrow> Inr (WDict [(''$exist'', WList xs)]))
      else if tag = ''And'' then
        (case d of
           Subqueries subqueries \<Rightarrow>
             (if subqueries = [] then Inr (WDict [])
              else (case to_wql_dict_each subqueries of
                      Inl e \<Rightarrow> Inl e
                    | Inr ds \<Rightarrow> Inr (WDict [(''$and'', WList ds)])))
         | Names names \<Rightarrow> (if names = [] then Inr (WDict []) else Inl AttributeError)
         | NameValue name v \<Rightarrow> Inl AttributeError
         | NameValues name vs \<Rightarrow> Inl AttributeError
         | Subquery q \<Rightarrow> Inl TypeError)
      else if tag = ''Or'' then
        (case d of
           Subqueries subqueries \<Rightarrow>
             (if subqueries = [] then Inr (WDict [])
              else (case to_wql_dict_each subqueries of
                      Inl e \<Rightarrow> Inl e
                    | Inr ds \<Rightarrow> Inr (WDict [(''$or'', WList ds)])))
         | Names names \<Rightarrow> (if names = [] then Inr (WDict []) else Inl AttributeError)
         | NameValue name v \<Rightarrow> Inl AttributeError
         | NameValues name vs \<Rightarrow> Inl AttributeError
         | Subquery q \<Rightarrow> Inl TypeError)
      else if tag = ''Not'' then
        (case d of
           Subquery subquery \<Rightarrow>
             (case to_wql_dict subquery of
                Inl e \<Rightarrow> Inl e
              | Inr w \<Rightarrow> Inr (WDict [(''$not'', w)]))
         | _ \<Rightarrow> Inl AttributeError)
      else Inl (ValueError (''Unknown query variant: '' @ tag)))"
| "to_wql_dict_each [] = Inr []"
| "to_wql_dict_each (sq # rest) =
     (case to_wql_dict sq of
        Inl e \<Rightarrow> Inl e
      | Inr w \<Rightarrow> (case to_wql_dict_each rest of Inl e \<Rightarrow> Inl e | Inr ws \<Rightarrow> Inr (w # ws)))"
  by pat_completeness
     (simp_all only: TagQuery.inject list.inject sum.inject sum.distinct list.distinct)
termination
  by (relation "measure (\<lambda>x. case x of
        Inl q \<Rightarrow> size q
      | Inr qs \<Rightarrow> size_list size qs)") auto

text \<open>
  \<open>json.dumps\<close> with its default arguments, on these values: items separated by a comma
  and a space, keys and values by a colon and a space, and strings escaped to ASCII (a
  character is read as the code point of its byte). A TagName object is not
  serializable (TypeError).
\<close>

definition hex_digit :: "nat \<Rightarrow> char" where
  "hex_digit n = ''0123456789abcdef'' ! (n mod 16)"

definition escape_char :: "char \<Rightarrow> string" where
  "escape_char c =
     (if c = CHR 0x5C then [CHR 0x5C, CHR 0x5C]
      else if c = CHR 0x22 then [CHR 0x5C, CHR 0x22]
      else if c = CHR 0x08 then [CHR 0x5C, CHR ''b'']
      else if c = CHR 0x0C then [CHR 0x5C, CHR ''f'']
      else if c = CHR 0x0A then [CHR 0x5C, CHR ''n'']
      else if c = CHR 0x0D then [CHR 0x5C, CHR ''r'']
      else if c = CHR 0x09 then [CHR 0x5C, CHR ''t'']
      else if 0x20 \<le> (of_char c :: nat) \<and> (of_char c :: nat) \<le> 0x7E then [c]
      else [CHR 0x5C, CHR ''u'', CHR ''0'', CHR ''0'',
            hex_digit ((of_char c :: nat) div 16), hex_digit (of_char c :: nat)])"

definition encode_basestring_ascii :: "string \<Rightarrow> string" where
  "encode_basestring_ascii s = [CHR 0x22] @ concat (map escape_char s) @ [CHR 0x22]"

fun join :: "string \<Rightarrow> string list \<Rightarrow> string" where
  "join sep [] = []"
| "join sep [x] = x"
| "join sep (x # y # rest) = x @ sep @ join sep (y # rest)"

fun json_dumps :: "wql \<Rightarrow> error + string"
and json_dumps_items :: "wql list \<Rightarrow> error + string list"
and json_dumps_pairs :: "(string \<times> wql) list \<Rightarrow> error + string list"
where
  "json_dumps (WStr s) = Inr (encode_basestring_ascii s)"
| "json_dumps (WName n) = Inl TypeError"
| "json_dumps (WList xs) =
     (case json_dumps_items xs of
        Inl e \<Rightarrow> Inl e
      | Inr ss \<Rightarrow> Inr (''['' @ join '', '' ss @ '']''))"
| "json_dumps (WDict kvs) =
     (case json_dumps_pairs kvs of
        Inl e \<Rightarrow> Inl e
      | Inr ss \<Rightarrow> Inr (''{'' @ join '', '' ss @ ''}''))"
| "json_dumps_items [] = Inr []"
| "json_dumps_items (x # xs) =
     (case json_dumps x of
        Inl e \<Rightarrow> Inl e
      | Inr s \<Rightarrow> (case json_dumps_items xs of Inl e \<Rightarrow> Inl e | Inr ss \<Rightarrow> Inr (s # ss)))"
| "json_dumps_pairs [] = Inr []"
| "json_dumps_pairs ((k, v) # kvs) =
     (case json_dumps v of
        Inl e \<Rightarrow> Inl e
      | Inr s \<Rightarrow>
          (case json_dumps_pairs kvs of
             Inl e \<Rightarrow> Inl e
           | Inr ss \<Rightarrow> Inr ((encode_basestring_ascii k @ '': '' @ s) # ss)))"

definition to_wql_str :: "TagQuery \<Rightarrow> error + string" where
  "to_wql_str q = (case to_wql_dict q of Inl e \<Rightarrow> Inl e | Inr w \<Rightarrow> json_dumps w)"

subsection \<open>A recording encoder\<close>

text \<open>
  \<open>recording enc\<close> behaves as \<open>enc\<close> and appends every primitive call, with its
  arguments, to a log kept beside the state of \<open>enc\<close>.
\<close>

datatype ('n, 'v) call =
    Call_encode_name TagName
  | Call_encode_value string
  | Call_encode_op_clause CompareOp 'n 'v bool
  | Call_encode_in_clause 'n "'v list" bool
  | Call_encode_exist_clause 'n bool
  | Call_encode_conj_clause ConjunctionOp "string list"

definition logged :: "('n, 'v) call \<Rightarrow> ('s \<Rightarrow> 'a \<times> 's) \<Rightarrow> ('n, 'v) call list \<times> 's \<Rightarrow> 'a \<times> ('n, 'v) call list \<times> 's" where
  "logged c f st = (let (r, s1) = f (snd st) in (r, (fst st @ [c], s1)))"

definition recording ::
  "('n, 'v, 's) TagQueryEncoder \<Rightarrow> ('n, 'v, ('n, 'v) call list \<times> 's) TagQueryEncoder" where
  "recording enc =
     \<lparr> encode_name = (\<lambda>name. logged (Call_encode_name name) (encode_name enc name)),
       encode_value = (\<lambda>value. logged (Call_encode_value value) (encode_value enc value)),
       encode_op_clause = (\<lambda>op n v negate.
          logged (Call_encode_op_clause op n v negate) (encode_op_clause enc op n v negate)),
       encode_in_clause = (\<lambda>n vs negate.
          logged (Call_encode_in_clause n vs negate) (encode_in_clause enc n vs negate)),
       encode_exist_clause = (\<lambda>n negate.
          logged (Call_encode_exist_clause n negate) (encode_exist_clause enc n negate)),
       encode_conj_clause = (\<lambda>op clauses.
          logged (Call_encode_conj_clause op clauses) (encode_conj_clause enc op clauses)) \<rparr>"

section \<open>Legacy adapter (query_to_tagquery)\<close>

text \<open>
  Modelled from the spec: the legacy query classes of query.py, which is not part of the
  sources. Each class carries the fields the adapter reads (subqueries, subquery, key and
  value, key and values, keys); \<open>OtherQuery\<close> stands for an object of any other type, with
  the text of its type.
\<close>

datatype Query =
    AndQuery "Query list"
  | OrQuery "Query list"
  | NotQuery Query
  | EqQuery string string
  | NeqQuery string string
  | GtQuery string string
  | GteQuery string string
  | LtQuery string string
  | LteQuery string string
  | LikeQuery string string
  | InQuery string "string list"
  | ExistQuery "string list"
  | OtherQuery string

text \<open>Python's \<open>str.lstrip(chars)\<close>: drops leading characters while they are in \<open>chars\<close>.\<close>

definition lstrip :: "string \<Rightarrow> string \<Rightarrow> string" where
  "lstrip s chars = dropWhile (\<lambda>c. c \<in> set chars) s"

fun query_to_tagquery :: "Query \<Rightarrow> error + TagQuery"
and query_to_tagquery_each :: "Query list \<Rightarrow> error + TagQuery list"
where
  "query_to_tagquery (AndQuery subqueries) =
     (case query_to_tagquery_each subqueries of
        Inl e \<Rightarrow> Inl e | Inr sqs \<Rightarrow> Inr (TagQuery_And sqs))"
| "query_to_tagquery (OrQuery subqueries) =
     (case query_to_tagquery_each subqueries of
        Inl e \<Rightarrow> Inl e | Inr sqs \<Rightarrow> Inr (TagQuery_Or sqs))"
| "query_to_tagquery (NotQuery subquery) =
     (case query_to_tagquery subquery of
        Inl e \<Rightarrow> Inl e | Inr sq \<Rightarrow> Inr (TagQuery_Not sq))"
| "query_to_tagquery (EqQuery key value) =
     (let key = lstrip key ''~''; tag_name = TagName key
      in Inr (TagQuery_Eq tag_name value))"
| "query_to_tagquery (NeqQuery key value) =
     (let key = lstrip key ''~''; tag_name = TagName key
      in Inr (TagQuery_Neq tag_name value))"
| "query_to_tagquery (GtQuery key value) =
     (let key = lstrip key ''~''; tag_name = TagName key
      in Inr (TagQuery_Gt tag_name value))"
| "query_to_tagquery (GteQuery key value) =
     (let key = lstrip key ''~''; tag_name = TagName key
      in Inr (TagQuery_Gte tag_name value))"
| "query_to_tagquery (LtQuery key value) =
     (let key = lstrip key ''~''; tag_name = TagName key
      in Inr (TagQuery_Lt tag_name value))"
| "query_to_tagquery (LteQuery key value) =
     (let key = lstrip key ''~''; tag_name = TagName key
      in Inr (TagQuery_Lte tag_name value))"
| "query_to_tagquery (LikeQuery key value) =
     (let key = lstrip key ''~''; tag_name = TagName key
      in Inr (TagQuery_Like tag_name value))"
| "query_to_tagquery (InQuery key values) =
     (let key = lstrip key ''~''; tag_name = TagName key
      in Inr (TagQuery_In tag_name values))"
| "query_to_tagquery (ExistQuery keys) =
     (let tag_names = map (\<lambda>k. TagName (lstrip k ''~'')) keys
      in Inr (TagQuery_Exist tag_names))"
| "query_to_tagquery (OtherQuery type_name) =
     Inl (ValueError (''Unknown query type: '' @ type_name))"
| "query_to_tagquery_each [] = Inr []"
| "query_to_tagquery_each (sq # rest) =
     (case query_to_tagquery sq of
        Inl e \<Rightarrow> Inl e
      | Inr t \<Rightarrow> (case query_to_tagquery_each rest of Inl e \<Rightarrow> Inl e | Inr ts \<Rightarrow> Inr (t # ts)))"

section \<open>Key placeholder (key.py)\<close>

text \<open>
  The algorithm and seed-method enumerations of db_types.py are type parameters; an
  argument typed \<open>Union[str, KeyAlg]\<close> is a sum. Optional arguments are options.
\<close>

type_synonym bytes = string

datatype str_or_bytes = Str string | Bytes bytes

datatype 'h Key = Key (handle: "string + 'h")

definition generate :: "string + 'alg \<Rightarrow> bool \<Rightarrow> error + 'h Key" where
  "generate alg ephemeral =
     Inl (NotImplementedError ''Key generation is not available without bindings.'')"

definition from_seed :: "string + 'alg \<Rightarrow> str_or_bytes \<Rightarrow> (string + 'm) option \<Rightarrow> error + 'h Key" where
  "from_seed alg seed method =
     Inl (NotImplementedError ''Key creation from seed is not available without bindings.'')"

definition from_secret_bytes :: "string + 'alg \<Rightarrow> bytes \<Rightarrow> error + 'h Key" where
  "from_secret_bytes alg secret =
     Inl (NotImplementedError ''Key creation from secret bytes is not available without bindings.'')"

definition from_public_bytes :: "string + 'alg \<Rightarrow> bytes \<Rightarrow> error + 'h Key" where
  "from_public_bytes alg public =
     Inl (NotImplementedError ''Key creation from public bytes is not available without bindings.'')"

definition from_jwk :: "'j \<Rightarrow> error + 'h Key" where
  "from_jwk jwk =
     Inl (NotImplementedError ''Key creation from JWK is not available without bindings.'')"

definition convert_key :: "'h Key \<Rightarrow> string + 'alg \<Rightarrow> error + 'h Key" where
  "convert_key self alg =
     Inl (NotImplementedError ''Key conversion is not available without bindings.'')"

definition key_exchange :: "'h Key \<Rightarrow> string + 'alg \<Rightarrow> 'h Key \<Rightarrow> error + 'h Key" where
  "key_exchange self alg pk =
     Inl (NotImplementedError ''Key exchange is not available without bindings.'')"

definition get_public_bytes :: "'h Key \<Rightarrow> error + bytes" where
  "get_public_bytes self = Inr ''public_bytes_placeholder''"

definition get_secret_bytes :: "'h Key \<Rightarrow> error + bytes" where
  "get_secret_bytes self = Inr ''secret_bytes_placeholder''"

definition get_jwk_public :: "'h Key \<Rightarrow> (string + 'alg) option \<Rightarrow> error + string" where
  "get_jwk_public self alg = Inr ''jwk_public_placeholder''"

definition get_jwk_secret :: "'h Key \<Rightarrow> error + bytes" where
  "get_jwk_secret self = Inr ''jwk_secret_placeholder''"

definition get_jwk_thumbprint :: "'h Key \<Rightarrow> (string + 'alg) option \<Rightarrow> error + string" where
  "get_jwk_thumbprint self alg = Inr ''jwk_thumbprint_placeholder''"

definition aead_encrypt :: "'h Key \<Rightarrow> str_or_bytes \<Rightarrow> bytes option \<Rightarrow> bytes option \<Rightarrow> error + string" where
  "aead_encrypt self message nonce aad = Inr ''Encrypted placeholder''"

definition aead_decrypt ::
  "'h Key \<Rightarrow> bytes \<Rightarrow> bytes \<Rightarrow> bytes option \<Rightarrow> bytes option \<Rightarrow> error + bytes" where
  "aead_decrypt self ciphertext nonce tag aad = Inr ''decrypted placeholder''"

definition sign_message :: "'h Key \<Rightarrow> str_or_bytes \<Rightarrow> string option \<Rightarrow> error + bytes" where
  "sign_message self message sig_type =
     Inl (NotImplementedError ''Message signing is not available without bindings.'')"

definition verify_signature :: "'h Key \<Rightarrow> str_or_bytes \<Rightarrow> bytes \<Rightarrow> string option \<Rightarrow> error + bool" where
  "verify_signature self message signature sig_type =
     Inl (NotImplementedError ''Signature verification is not available without bindings.'')"

definition wrap_key :: "'h Key \<Rightarrow> 'h Key \<Rightarrow> bytes option \<Rightarrow> error + string" where
  "wrap_key self other nonce = Inr ''Encrypted placeholder''"

definition unwrap_key ::
  "'h Key \<Rightarrow> string + 'alg \<Rightarrow> bytes \<Rightarrow> bytes option \<Rightarrow> bytes option \<Rightarrow> error + 'h Key" where
  "unwrap_key self alg ciphertext nonce tag = Inr (Key (Inl ''placeholder handle''))"

section \<open>Statements of the spec, for comparison with the code\<close>

text \<open>The factory of the comparison variant named like the operator.\<close>

fun comparison :: "CompareOp \<Rightarrow> TagName \<Rightarrow> string \<Rightarrow> TagQuery" where
  "comparison Eq = TagQuery_Eq"
| "comparison Neq = TagQuery_Neq"
| "comparison Gt = TagQuery_Gt"
| "comparison Gte = TagQuery_Gte"
| "comparison Lt = TagQuery_Lt"
| "comparison Lte = TagQuery_Lte"
| "comparison Like = TagQuery_Like"

text \<open>
  The spec's And/Or rule: every child is encoded in order with the parent's \<open>negate\<close>;
  this collects all results, null clauses included. \<open>surviving\<close> drops the null ones.
\<close>

fun encode_children ::
  "('n, 'v, 's) TagQueryEncoder \<Rightarrow> TagQuery list \<Rightarrow> bool \<Rightarrow> 's \<Rightarrow> (error + string option list) \<times> 's" where
  "encode_children enc [] negate s = (Inr [], s)"
| "encode_children enc (q # qs) negate s =
     (case encode_query enc q negate s of
        (Inl e, s1) \<Rightarrow> (Inl e, s1)
      | (Inr r, s1) \<Rightarrow>
          (case encode_children enc qs negate s1 of
             (Inl e, s2) \<Rightarrow> (Inl e, s2)
           | (Inr rs, s2) \<Rightarrow> (Inr (r # rs), s2)))"

definition surviving :: "string option list \<Rightarrow> string list" where
  "surviving rs = map the (filter (\<lambda>r. r \<noteq> None) rs)"

text \<open>
  The spec's Exist rule for several names: each name is encoded on its own, by one
  \<open>encode_name\<close> call and one \<open>encode_exist_clause\<close> call with the same \<open>negate\<close>. This
  returns the calls made and the clauses obtained, in order.
\<close>

fun exist_each_spec ::
  "('n, 'v, 's) TagQueryEncoder \<Rightarrow> TagName list \<Rightarrow> bool \<Rightarrow> 's \<Rightarrow>
     (('n, 'v) call list \<times> string option list) \<times> 's" where
  "exist_each_spec enc [] negate s = (([], []), s)"
| "exist_each_spec enc (name # rest) negate s =
     (let (en, s1) = encode_name enc name s;
          (c, s2) = encode_exist_clause enc en negate s1;
          ((calls, cs), s3) = exist_each_spec enc rest negate s2
      in ((Call_encode_name name # Call_encode_exist_clause en negate # calls, c # cs), s3))"

text \<open>A test encoder without state whose clauses are all the empty string.\<close>

definition empty_clause_encoder :: "(string, string, unit) TagQueryEncoder" where
  "empty_clause_encoder =
     \<lparr> encode_name = (\<lambda>name s. (to_string name, s)),
       encode_value = (\<lambda>v s. (v, s)),
       encode_op_clause = (\<lambda>op n v negate s. (Some [], s)),
       encode_in_clause = (\<lambda>n vs negate s. (Some [], s)),
       encode_exist_clause = (\<lambda>n negate s. (Some [], s)),
       encode_conj_clause = (\<lambda>op clauses s. (Some [], s)) \<rparr>"

text \<open>The closed set of variant tags.\<close>

definition closed_variants :: "string list" where
  "closed_variants =
     [''Eq'', ''Neq'', ''Gt'', ''Gte'', ''Lt'', ''Lte'', ''Like'', ''In'', ''Exist'',
      ''And'', ''Or'', ''Not'']"

text \<open>All nodes of a tree, the root first.\<close>

fun nodes :: "TagQuery \<Rightarrow> TagQuery list" where
  "nodes (TagQuery tag d) =
     TagQuery tag d #
       (case d of
          Subqueries qs \<Rightarrow> concat (map nodes qs)
        | Subquery q \<Rightarrow> nodes q
        | _ \<Rightarrow> [])"

text \<open>Some node of the tree has a variant tag outside the closed set.\<close>

definition has_unknown_variant :: "TagQuery \<Rightarrow> bool" where
  "has_unknown_variant q = list_ex (\<lambda>n. variant n \<notin> set closed_variants) (nodes q)"

text \<open>
  A tree built by the factories alone: every node is the result of one factory, applied
  to names and strings or to trees built in the same way.
\<close>

fun factory_built :: "TagQuery \<Rightarrow> bool" where
  "factory_built (TagQuery tag d) =
     (case d of
        NameValue name v \<Rightarrow> tag \<in> set [''Eq'', ''Neq'', ''Gt'', ''Gte'', ''Lt'', ''Lte'', ''Like'']
      | NameValues name vs \<Rightarrow> tag = ''In''
      | Names names \<Rightarrow> tag = ''Exist''
      | Subqueries qs \<Rightarrow> tag \<in> set [''And'', ''Or''] \<and> list_all factory_built qs
      | Subquery q \<Rightarrow> tag = ''Not'' \<and> factory_built q)"

text \<open>
  A tree in which every node with a tag of the closed set carries the payload of that
  tag's factory; nothing is asked of a node with another tag.
\<close>

fun shaped :: "TagQuery \<Rightarrow> bool" where
  "shaped (TagQuery tag d) =
     (if tag \<in> set [''Eq'', ''Neq'', ''Gt'', ''Gte'', ''Lt'', ''Lte'', ''Like'']
        then (case d of NameValue name v \<Rightarrow> True | _ \<Rightarrow> False)
      else if tag = ''In'' then (case d of NameValues name vs \<Rightarrow> True | _ \<Rightarrow> False)
      else if tag = ''Exist'' then (case d of Names names \<Rightarrow> True | _ \<Rightarrow> False)
      else if tag \<in> set [''And'', ''Or'']
        then (case d of Subqueries qs \<Rightarrow> list_all shaped qs | _ \<Rightarrow> False)
      else if tag = ''Not'' then (case d of Subquery q \<Rightarrow> shaped q | _ \<Rightarrow> False)
      else True)"

text \<open>
  The trees on which the serialization is one-to-one: built by the factories, every
  And/Or with at least one subquery, and no Neq/Gt/Gte/Lt/Lte/Like node on the tag name
  \<open>$not\<close>.
\<close>

fun canonical :: "TagQuery \<Rightarrow> bool" where
  "canonical (TagQuery tag d) =
     (case d of
        NameValue name v \<Rightarrow>
          tag = ''Eq'' \<or>
          (tag \<in> set [''Neq'', ''Gt'', ''Gte'', ''Lt'', ''Lte'', ''Like''] \<and>
           to_string name \<noteq> ''$not'')
      | NameValues name vs \<Rightarrow> tag = ''In''
      | Names names \<Rightarrow> tag = ''Exist''
      | Subqueries qs \<Rightarrow> tag \<in> set [''And'', ''Or''] \<and> qs \<noteq> [] \<and> list_all canonical qs
      | Subquery q \<Rightarrow> tag = ''Not'' \<and> canonical q)"

section \<open>Properties of the traversal\<close>

lemma encode_query_Eq: "encode_query enc (TagQuery_Eq name v) negate s = returns (encode_op enc Eq name v negate s)"
  by (simp add: TagQuery_Eq_def)
lemma encode_query_Neq: "encode_query enc (TagQuery_Neq name v) negate s = returns (encode_op enc Neq name v negate s)"
  by (simp add: TagQuery_Neq_def)
lemma encode_query_Gt: "encode_query enc (TagQuery_Gt name v) negate s = returns (encode_op enc Gt name v negate s)"
  by (simp add: TagQuery_Gt_def)
lemma encode_query_Gte: "encode_query enc (TagQuery_Gte name v) negate s = returns (encode_op enc Gte name v negate s)"
  by (simp add: TagQuery_Gte_def)
lemma encode_query_Lt: "encode_query enc (TagQuery_Lt name v) negate s = returns (encode_op enc Lt name v negate s)"
  by (simp add: TagQuery_Lt_def)
lemma encode_query_Lte: "encode_query enc (TagQuery_Lte name v) negate s = returns (encode_op enc Lte name v negate s)"
  by (simp add: TagQuery_Lte_def)
lemma encode_query_Like: "encode_query enc (TagQuery_Like name v) negate s = returns (encode_op enc Like name v negate s)"
  by (simp add: TagQuery_Like_def)
lemma encode_query_In: "encode_query enc (TagQuery_In name vs) negate s = returns (encode_in enc name vs negate s)"
  by (simp add: TagQuery_In_def)
lemma encode_query_Exist: "encode_query enc (TagQuery_Exist names) negate s = returns (encode_exist enc names negate s)"
  by (simp add: TagQuery_Exist_def)
lemma encode_query_And: "encode_query enc (TagQuery_And qs) negate s = encode_conj enc And qs negate s"
  by (simp add: TagQuery_And_def)
lemma encode_query_Or: "encode_query enc (TagQuery_Or qs) negate s = encode_conj enc Or qs negate s"
  by (simp add: TagQuery_Or_def)
lemma encode_query_Not: "encode_query enc (TagQuery_Not q) negate s = encode_query enc q (\<not> negate) s"
  by (simp add: TagQuery_Not_def)

declare encode_query.simps(1) [simp del]

lemmas encode_query_factories =
  encode_query_Eq encode_query_Neq encode_query_Gt encode_query_Gte encode_query_Lt
  encode_query_Lte encode_query_Like encode_query_In encode_query_Exist
  encode_query_And encode_query_Or encode_query_Not

text \<open>
  C1 (De Morgan equivalence). For all subqueries \<open>A\<close> and \<open>B\<close> and every encoder, encoding
  \<open>Not(And([A, B]))\<close> with \<open>negate = False\<close> returns the same clause (or fault) and leaves
  the same encoder state as encoding \<open>Or([Not(A), Not(B)])\<close>; on a recording encoder the
  two logs of primitive calls, with their arguments and in order, are equal.
\<close>

theorem de_morgan_equivalence:
  "encode_query enc (TagQuery_Not (TagQuery_And [A, B])) False s =
     encode_query enc (TagQuery_Or [TagQuery_Not A, TagQuery_Not B]) False s \<and>
   encode_query (recording enc') (TagQuery_Not (TagQuery_And [A, B])) False ([], s') =
     encode_query (recording enc') (TagQuery_Or [TagQuery_Not A, TagQuery_Not B]) False ([], s')"
  by (simp add: encode_query_factories split: prod.splits sum.splits)

lemma recording_simps:
  "encode_name (recording enc) name = logged (Call_encode_name name) (encode_name enc name)"
  "encode_value (recording enc) v = logged (Call_encode_value v) (encode_value enc v)"
  "encode_op_clause (recording enc) op n ev negate =
     logged (Call_encode_op_clause op n ev negate) (encode_op_clause enc op n ev negate)"
  "encode_in_clause (recording enc) n vs negate =
     logged (Call_encode_in_clause n vs negate) (encode_in_clause enc n vs negate)"
  "encode_exist_clause (recording enc) n negate =
     logged (Call_encode_exist_clause n negate) (encode_exist_clause enc n negate)"
  "encode_conj_clause (recording enc) cop cs =
     logged (Call_encode_conj_clause cop cs) (encode_conj_clause enc cop cs)"
  by (simp_all add: recording_def)

lemma encode_query_comparison:
  "encode_query enc (comparison op name v) negate s = returns (encode_op enc op name v negate s)"
  by (cases op) (simp_all add: encode_query_factories)

text \<open>
  C2 (comparisons pass \<open>negate\<close> through). For every comparison operator \<open>op\<close> and both
  values of \<open>negate\<close>, encoding the comparison node of that operator makes exactly three
  primitive calls: \<open>encode_name\<close> once, \<open>encode_value\<close> once, then \<open>encode_op_clause\<close> with
  the same operator, the two encoded results and the \<open>negate\<close> flag as received.
\<close>

theorem comparison_passes_negate:
  "encode_query (recording enc) (comparison op name v) negate ([], s) =
     (let (en, s1) = encode_name enc name s;
          (ev, s2) = encode_value enc v s1;
          (c, s3) = encode_op_clause enc op en ev negate s2
      in (Inr c, ([Call_encode_name name, Call_encode_value v,
                   Call_encode_op_clause op en ev negate], s3)))"
  by (simp add: encode_query_comparison returns_def encode_op_def recording_simps logged_def
        split: prod.splits)

lemma encode_conj_loop_children:
  "encode_conj_loop enc qs negate acc s =
     (case encode_children enc qs negate s of
        (Inl e, s1) \<Rightarrow> (Inl e, s1)
      | (Inr rs, s1) \<Rightarrow> (Inr (acc @ surviving rs), s1))"
proof (induction qs arbitrary: acc s)
  case Nil
  show ?case by (simp add: surviving_def)
next
  case (Cons q qs)
  show ?case
    by (simp add: Cons.IH surviving_def split: prod.splits sum.splits option.splits)
qed

lemma encode_conj_children:
  "encode_conj enc cop qs negate s =
     (case encode_children enc qs negate s of
        (Inl e, s1) \<Rightarrow> (Inl e, s1)
      | (Inr rs, s1) \<Rightarrow>
          returns (encode_conj_clause enc (if negate then negate_op cop else cop) (surviving rs) s1))"
  by (simp add: encode_conj_loop_children split: prod.splits sum.splits)

text \<open>
  C5 (vacuous conjunction). For both values of \<open>negate\<close>, encoding \<open>And([])\<close> or \<open>Or([])\<close>
  makes exactly one primitive call, \<open>encode_conj_clause\<close> on the empty clause list, and
  returns its result. For any And/Or node whose children encode without a fault, the
  children's null clauses are dropped and \<open>encode_conj_clause\<close> is called on the surviving
  clauses, in order, with the operator flipped when \<open>negate\<close> holds.
\<close>

theorem vacuous_conjunction:
  "encode_query (recording enc) (TagQuery_And []) negate ([], s) =
     (let op = (if negate then Or else And); (c, s1) = encode_conj_clause enc op [] s
      in (Inr c, ([Call_encode_conj_clause op []], s1))) \<and>
   encode_query (recording enc) (TagQuery_Or []) negate ([], s) =
     (let op = (if negate then And else Or); (c, s1) = encode_conj_clause enc op [] s
      in (Inr c, ([Call_encode_conj_clause op []], s1))) \<and>
   encode_query enc' (TagQuery_And qs) negate s' =
     (case encode_children enc' qs negate s' of
        (Inl e, s1) \<Rightarrow> (Inl e, s1)
      | (Inr rs, s1) \<Rightarrow>
          returns (encode_conj_clause enc' (if negate then Or else And) (surviving rs) s1)) \<and>
   encode_query enc' (TagQuery_Or qs) negate s' =
     (case encode_children enc' qs negate s' of
        (Inl e, s1) \<Rightarrow> (Inl e, s1)
      | (Inr rs, s1) \<Rightarrow>
          returns (encode_conj_clause enc' (if negate then And else Or) (surviving rs) s1))"
proof (intro conjI)
  show "encode_query (recording enc) (TagQuery_And []) negate ([], s) =
     (let op = (if negate then Or else And); (c, s1) = encode_conj_clause enc op [] s
      in (Inr c, ([Call_encode_conj_clause op []], s1)))"
    by (simp add: encode_query_And returns_def recording_simps logged_def split: prod.splits)
  show "encode_query (recording enc) (TagQuery_Or []) negate ([], s) =
     (let op = (if negate then And else Or); (c, s1) = encode_conj_clause enc op [] s
      in (Inr c, ([Call_encode_conj_clause op []], s1)))"
    by (simp add: encode_query_Or returns_def recording_simps logged_def split: prod.splits)
  show "encode_query enc' (TagQuery_And qs) negate s' =
     (case encode_children enc' qs negate s' of
        (Inl e, s1) \<Rightarrow> (Inl e, s1)
      | (Inr rs, s1) \<Rightarrow>
          returns (encode_conj_clause enc' (if negate then Or else And) (surviving rs) s1))"
    by (simp only: encode_query_And encode_conj_children negate_op.simps)
  show "encode_query enc' (TagQuery_Or qs) negate s' =
     (case encode_children enc' qs negate s' of
        (Inl e, s1) \<Rightarrow> (Inl e, s1)
      | (Inr rs, s1) \<Rightarrow>
          returns (encode_conj_clause enc' (if negate then And else Or) (surviving rs) s1))"
    by (simp only: encode_query_Or encode_conj_children negate_op.simps)
qed

lemma encode_exist_Nil: "encode_exist enc [] negate s = (None, s)"
  by simp

lemma encode_exist_single:
  "encode_exist enc [name] negate s =
     (let (en, s1) = encode_name enc name s in encode_exist_clause enc en negate s1)"
  by simp

lemma encode_exist_many:
  "encode_exist enc (n1 # n2 # rest) negate s =
     (let (clauses, s1) = encode_exist_each enc (n1 # n2 # rest) negate s
      in encode_conj_clause enc And (map the (filter truthy clauses)) s1)"
  by (subst encode_exist.simps(1)) simp

declare encode_exist.simps(1) [simp del]

lemma encode_exist_each_spec:
  "encode_exist_each (recording enc) names negate (log, s) =
     (let ((calls, cs), s1) = exist_each_spec enc names negate s in (cs, (log @ calls, s1)))"
proof (induction names arbitrary: log s)
  case Nil
  show ?case by simp
next
  case (Cons name names)
  show ?case
    by (simp add: encode_exist_single Cons.IH recording_simps logged_def split: prod.splits)
qed

lemma truthy_surviving:
  "map the (filter truthy cs) = filter (\<lambda>c. c \<noteq> []) (surviving cs)"
  by (induction cs) (auto simp: truthy_def surviving_def split: option.splits)

text \<open>
  C6 (Exist by number of names), as amended. With no name the result is the null clause
  and no primitive is called. With one name the calls are \<open>encode_name\<close> and then
  \<open>encode_exist_clause\<close> on the encoded name with the ambient \<open>negate\<close>. With two or more
  names each name is encoded on its own with the same \<open>negate\<close>, and those of the clauses
  obtained that are neither null nor the empty string are combined, in order, by one
  \<open>encode_conj_clause\<close> call with \<open>ConjunctionOp.And\<close>, whatever \<open>negate\<close> is.
\<close>

theorem exist_by_number_of_names:
  "encode_query enc' (TagQuery_Exist []) negate s' = (Inr None, s') \<and>
   encode_query (recording enc) (TagQuery_Exist [name]) negate ([], s) =
     (let (en, s1) = encode_name enc name s;
          (c, s2) = encode_exist_clause enc en negate s1
      in (Inr c, ([Call_encode_name name, Call_encode_exist_clause en negate], s2))) \<and>
   encode_query (recording enc) (TagQuery_Exist (n1 # n2 # rest)) negate ([], s) =
     (let ((calls, cs), s1) = exist_each_spec enc (n1 # n2 # rest) negate s;
          clauses = filter (\<lambda>c. c \<noteq> []) (surviving cs);
          (c, s2) = encode_conj_clause enc And clauses s1
      in (Inr c, (calls @ [Call_encode_conj_clause And clauses], s2)))"
proof (intro conjI)
  show "encode_query enc' (TagQuery_Exist []) negate s' = (Inr None, s')"
    by (simp add: encode_query_Exist encode_exist_Nil returns_def)
  show "encode_query (recording enc) (TagQuery_Exist [name]) negate ([], s) =
     (let (en, s1) = encode_name enc name s;
          (c, s2) = encode_exist_clause enc en negate s1
      in (Inr c, ([Call_encode_name name, Call_encode_exist_clause en negate], s2)))"
    by (simp add: encode_query_Exist encode_exist_single returns_def recording_simps logged_def
          split: prod.splits)
  show "encode_query (recording enc) (TagQuery_Exist (n1 # n2 # rest)) negate ([], s) =
     (let ((calls, cs), s1) = exist_each_spec enc (n1 # n2 # rest) negate s;
          clauses = filter (\<lambda>c. c \<noteq> []) (surviving cs);
          (c, s2) = encode_conj_clause enc And clauses s1
      in (Inr c, (calls @ [Call_encode_conj_clause And clauses], s2)))"
    by (simp only: encode_query_Exist encode_exist_many encode_exist_each_spec)
       (simp add: returns_def recording_simps logged_def Let_def truthy_surviving
          split: prod.splits)
qed

text \<open>
  C6 as stated fails: on an encoder whose exist clauses are the empty string, the two
  names of \<open>Exist([TagName("a"), TagName("b")])\<close> are each encoded to the clause \<open>""\<close>, and
  \<open>encode_conj_clause\<close> is called on the empty list, not on the two results.
\<close>

theorem exist_combines_all_results_counterexample:
  "fst (encode_exist_clause empty_clause_encoder ''a'' False ()) = Some [] \<and>
   fst (encode_exist_clause empty_clause_encoder ''b'' False ()) = Some [] \<and>
   fst (snd (encode_query (recording empty_clause_encoder)
      (TagQuery_Exist [TagName ''a'', TagName ''b'']) False ([], ()))) =
     [Call_encode_name (TagName ''a''), Call_encode_exist_clause ''a'' False,
      Call_encode_name (TagName ''b''), Call_encode_exist_clause ''b'' False,
      Call_encode_conj_clause And []] \<and>
   Call_encode_conj_clause And [] \<noteq>
     (Call_encode_conj_clause And [[], []] :: (string, string) call)"
  by (simp add: encode_query_Exist encode_exist_many encode_exist_single returns_def
        recording_simps logged_def empty_clause_encoder_def to_string_def truthy_def
        split: prod.splits)

lemma encode_children_singletons:
  "encode_children (recording enc) (map (\<lambda>n. TagQuery_Exist [n]) names) negate (log, s) =
     (let ((calls, cs), s1) = exist_each_spec enc names negate s in (Inr cs, (log @ calls, s1)))"
proof (induction names arbitrary: log s)
  case Nil
  show ?case by simp
next
  case (Cons name names)
  show ?case
    by (simp add: encode_query_Exist encode_exist_single returns_def Cons.IH recording_simps
          logged_def split: prod.splits)
qed

lemma exist_each_spec_length:
  "length (snd (fst (exist_each_spec enc names negate s))) = length names"
  by (induction names arbitrary: s) (simp_all add: case_prod_beta)

lemma surviving_dropped:
  "Some [] \<in> set cs \<Longrightarrow> length (filter (\<lambda>c. c \<noteq> []) (surviving cs)) < length cs"
proof -
  assume a: "Some [] \<in> set cs"
  have m: "[] \<in> set (surviving cs)"
    using a by (force simp: surviving_def)
  have "length (filter (\<lambda>c. c \<noteq> []) (surviving cs)) < length (surviving cs)"
    by (rule length_filter_less [OF m]) simp
  also have "length (surviving cs) \<le> length cs"
    by (simp add: surviving_def)
  finally show ?thesis .
qed

lemma exist_many_log:
  "exist_each_spec enc (n1 # n2 # rest) negate s = ((calls, cs), s1) \<Longrightarrow>
   fst (snd (encode_query (recording enc) (TagQuery_Exist (n1 # n2 # rest)) negate ([], s))) =
     calls @ [Call_encode_conj_clause And (filter (\<lambda>c. c \<noteq> []) (surviving cs))]"
  by (simp only: encode_query_Exist encode_exist_many encode_exist_each_spec)
     (simp add: returns_def recording_simps logged_def Let_def truthy_surviving
        split: prod.splits)

lemma and_singletons_log:
  "exist_each_spec enc names negate s = ((calls, cs), s1) \<Longrightarrow>
   fst (snd (encode_query (recording enc)
      (TagQuery_And (map (\<lambda>n. TagQuery_Exist [n]) names)) negate ([], s))) =
     calls @ [Call_encode_conj_clause (if negate then Or else And) (surviving cs)]"
  by (simp only: encode_query_And encode_conj_children encode_children_singletons)
     (simp add: returns_def recording_simps logged_def Let_def split: prod.splits)

text \<open>
  C9 (Exist filters by truthiness). With two or more names, the list handed to
  \<open>encode_conj_clause\<close> is the per-name clauses without the null and without the empty
  ones, so it is shorter than the list of names as soon as one per-name clause is the
  empty string; an And node over the same names, one Exist child each, hands over every
  clause that is not null, the empty ones included.
\<close>

theorem exist_filters_by_truthiness:
  "(let ((calls, cs), s1) = exist_each_spec enc (n1 # n2 # rest) negate s in
     last (fst (snd (encode_query (recording enc)
        (TagQuery_Exist (n1 # n2 # rest)) negate ([], s)))) =
       Call_encode_conj_clause And (filter (\<lambda>c. c \<noteq> []) (surviving cs)) \<and>
     last (fst (snd (encode_query (recording enc)
        (TagQuery_And (map (\<lambda>n. TagQuery_Exist [n]) (n1 # n2 # rest))) negate ([], s)))) =
       Call_encode_conj_clause (if negate then Or else And) (surviving cs) \<and>
     (Some [] \<in> set cs \<longrightarrow>
        length (filter (\<lambda>c. c \<noteq> []) (surviving cs)) < length (n1 # n2 # rest)))"
proof -
  obtain calls cs s1 where
    spec: "exist_each_spec enc (n1 # n2 # rest) negate s = ((calls, cs), s1)"
    by (metis prod.exhaust)
  have len: "length cs = length (n1 # n2 # rest)"
    using exist_each_spec_length [of enc "n1 # n2 # rest" negate s] by (simp only: spec snd_conv fst_conv)
  have a: "last (fst (snd (encode_query (recording enc)
        (TagQuery_Exist (n1 # n2 # rest)) negate ([], s)))) =
       Call_encode_conj_clause And (filter (\<lambda>c. c \<noteq> []) (surviving cs))"
    by (simp only: exist_many_log [OF spec] last_snoc)
  have b: "last (fst (snd (encode_query (recording enc)
        (TagQuery_And (map (\<lambda>n. TagQuery_Exist [n]) (n1 # n2 # rest))) negate ([], s)))) =
       Call_encode_conj_clause (if negate then Or else And) (surviving cs)"
    by (simp only: and_singletons_log [OF spec] last_snoc)
  have c: "Some [] \<in> set cs \<longrightarrow>
        length (filter (\<lambda>c. c \<noteq> []) (surviving cs)) < length (n1 # n2 # rest)"
    using surviving_dropped [of cs] len by simp
  show ?thesis
    unfolding spec Let_def prod.case by (intro conjI a b c)
qed

theorem exist_filters_by_truthiness_witness:
  "last (fst (snd (encode_query (recording empty_clause_encoder)
      (TagQuery_Exist [TagName ''a'', TagName ''b'']) False ([], ())))) =
     Call_encode_conj_clause And [] \<and>
   last (fst (snd (encode_query (recording empty_clause_encoder)
      (TagQuery_And [TagQuery_Exist [TagName ''a''], TagQuery_Exist [TagName ''b'']]) False ([], ())))) =
     Call_encode_conj_clause And [[], []] \<and>
   Some [] \<in> set (snd (fst (exist_each_spec empty_clause_encoder [TagName ''a'', TagName ''b''] False ())))"
  using exist_filters_by_truthiness [of empty_clause_encoder "TagName ''a''" "TagName ''b''" "[]" False "()"]
  by (simp add: empty_clause_encoder_def surviving_def)

section \<open>Properties of the serialization\<close>

text \<open>
  C7 (serialization scenario). The tree \<open>And([Eq(TagName("a"), "1"),
  Not(Exist([TagName("b")]))])\<close> serializes by \<open>to_wql_str\<close> to exactly the JSON text
  below: Eq as a bare key, Not under \<open>$not\<close>, Exist under \<open>$exist\<close> with the list of names.
\<close>

theorem to_wql_str_scenario:
  \<open>to_wql_str (TagQuery_And [TagQuery_Eq (TagName ''a'') ''1'',
       TagQuery_Not (TagQuery_Exist [TagName ''b''])]) =
     Inr ''{"$and": [{"a": "1"}, {"$not": {"$exist": ["b"]}}]}''\<close>
  by (simp add: to_wql_str_def TagQuery_And_def TagQuery_Eq_def TagQuery_Not_def
        TagQuery_Exist_def unpack_name_value_def exist_names_def to_string_def
        encode_basestring_ascii_def escape_char_def)


lemma to_wql_dict_Eq:
  "to_wql_dict (TagQuery_Eq name v) = Inr (WDict [(to_string name, WStr v)])"
  by (simp add: TagQuery_Eq_def unpack_name_value_def)
lemma to_wql_dict_Neq:
  "to_wql_dict (TagQuery_Neq name v) = Inr (WDict [(to_string name, WDict [(''$neq'', WStr v)])])"
  by (simp add: TagQuery_Neq_def unpack_name_value_def)
lemma to_wql_dict_Gt:
  "to_wql_dict (TagQuery_Gt name v) = Inr (WDict [(to_string name, WDict [(''$gt'', WStr v)])])"
  by (simp add: TagQuery_Gt_def unpack_name_value_def)
lemma to_wql_dict_Gte:
  "to_wql_dict (TagQuery_Gte name v) = Inr (WDict [(to_string name, WDict [(''$gte'', WStr v)])])"
  by (simp add: TagQuery_Gte_def unpack_name_value_def)
lemma to_wql_dict_Lt:
  "to_wql_dict (TagQuery_Lt name v) = Inr (WDict [(to_string name, WDict [(''$lt'', WStr v)])])"
  by (simp add: TagQuery_Lt_def unpack_name_value_def)
lemma to_wql_dict_Lte:
  "to_wql_dict (TagQuery_Lte name v) = Inr (WDict [(to_string name, WDict [(''$lte'', WStr v)])])"
  by (simp add: TagQuery_Lte_def unpack_name_value_def)
lemma to_wql_dict_Like:
  "to_wql_dict (TagQuery_Like name v) = Inr (WDict [(to_string name, WDict [(''$like'', WStr v)])])"
  by (simp add: TagQuery_Like_def unpack_name_value_def)
lemma to_wql_dict_In:
  "to_wql_dict (TagQuery_In name vs) =
     Inr (WDict [(to_string name, WDict [(''$in'', WList (map WStr vs))])])"
  by (simp add: TagQuery_In_def unpack_name_value_def)
lemma to_wql_dict_Exist:
  "to_wql_dict (TagQuery_Exist names) =
     Inr (WDict [(''$exist'', WList (map (\<lambda>name. WStr (to_string name)) names))])"
  by (simp add: TagQuery_Exist_def exist_names_def)
lemma to_wql_dict_And:
  "to_wql_dict (TagQuery_And qs) =
     (if qs = [] then Inr (WDict [])
      else (case to_wql_dict_each qs of
              Inl e \<Rightarrow> Inl e
            | Inr ds \<Rightarrow> Inr (WDict [(''$and'', WList ds)])))"
  by (simp add: TagQuery_And_def)
lemma to_wql_dict_Or:
  "to_wql_dict (TagQuery_Or qs) =
     (if qs = [] then Inr (WDict [])
      else (case to_wql_dict_each qs of
              Inl e \<Rightarrow> Inl e
            | Inr ds \<Rightarrow> Inr (WDict [(''$or'', WList ds)])))"
  by (simp add: TagQuery_Or_def)
lemma to_wql_dict_Not:
  "to_wql_dict (TagQuery_Not q) =
     (case to_wql_dict q of Inl e \<Rightarrow> Inl e | Inr w \<Rightarrow> Inr (WDict [(''$not'', w)]))"
  by (simp add: TagQuery_Not_def)

lemma to_wql_dict_unknown:
  "tag \<notin> set closed_variants \<Longrightarrow>
   to_wql_dict (TagQuery tag d) = Inl (ValueError (''Unknown query variant: '' @ tag))"
  by (simp add: closed_variants_def)

lemma encode_query_unknown:
  "tag \<notin> set closed_variants \<Longrightarrow>
   encode_query enc (TagQuery tag d) negate s = (Inl (ValueError ''Unknown query variant''), s)"
  by (simp add: closed_variants_def encode_query.simps(1))

declare to_wql_dict.simps(1) [simp del]

lemmas to_wql_dict_factories =
  to_wql_dict_Eq to_wql_dict_Neq to_wql_dict_Gt to_wql_dict_Gte to_wql_dict_Lt to_wql_dict_Lte
  to_wql_dict_Like to_wql_dict_In to_wql_dict_Exist to_wql_dict_And to_wql_dict_Or
  to_wql_dict_Not

lemmas factory_defs =
  TagQuery_Eq_def TagQuery_Neq_def TagQuery_Gt_def TagQuery_Gte_def TagQuery_Lt_def
  TagQuery_Lte_def TagQuery_Like_def TagQuery_In_def TagQuery_Exist_def TagQuery_And_def
  TagQuery_Or_def TagQuery_Not_def

lemma closed_variants_cases:
  "tag \<in> set closed_variants \<Longrightarrow>
   tag = ''Eq'' \<or> tag = ''Neq'' \<or> tag = ''Gt'' \<or> tag = ''Gte'' \<or> tag = ''Lt'' \<or> tag = ''Lte'' \<or>
   tag = ''Like'' \<or> tag = ''In'' \<or> tag = ''Exist'' \<or> tag = ''And'' \<or> tag = ''Or'' \<or> tag = ''Not''"
  unfolding closed_variants_def list.set insert_iff empty_iff by (elim disjE) simp_all

lemma shaped_comparison:
  "tag \<in> set [''Eq'', ''Neq'', ''Gt'', ''Gte'', ''Lt'', ''Lte'', ''Like''] \<Longrightarrow>
   shaped (TagQuery tag d) = (\<exists>n v. d = NameValue n v)"
  by (cases d) simp_all

lemma shaped_In: "shaped (TagQuery ''In'' d) = (\<exists>n vs. d = NameValues n vs)"
  by (cases d) simp_all

lemma shaped_Exist: "shaped (TagQuery ''Exist'' d) = (\<exists>ns. d = Names ns)"
  by (cases d) simp_all

lemma shaped_And: "shaped (TagQuery ''And'' d) = (\<exists>qs. d = Subqueries qs \<and> list_all shaped qs)"
  by (cases d) simp_all

lemma shaped_Or: "shaped (TagQuery ''Or'' d) = (\<exists>qs. d = Subqueries qs \<and> list_all shaped qs)"
  by (cases d) simp_all

lemma shaped_Not: "shaped (TagQuery ''Not'' d) = (\<exists>q. d = Subquery q \<and> shaped q)"
  by (cases d) simp_all

lemma shaped_induct [consumes 1, case_names Eq Neq Gt Gte Lt Lte Like In Exist And Or Not Unknown]:
  assumes "shaped q"
    and "\<And>n v. P (TagQuery_Eq n v)"
    and "\<And>n v. P (TagQuery_Neq n v)"
    and "\<And>n v. P (TagQuery_Gt n v)"
    and "\<And>n v. P (TagQuery_Gte n v)"
    and "\<And>n v. P (TagQuery_Lt n v)"
    and "\<And>n v. P (TagQuery_Lte n v)"
    and "\<And>n v. P (TagQuery_Like n v)"
    and "\<And>n vs. P (TagQuery_In n vs)"
    and "\<And>ns. P (TagQuery_Exist ns)"
    and "\<And>qs. (\<And>x. x \<in> set qs \<Longrightarrow> shaped x \<and> P x) \<Longrightarrow> P (TagQuery_And qs)"
    and "\<And>qs. (\<And>x. x \<in> set qs \<Longrightarrow> shaped x \<and> P x) \<Longrightarrow> P (TagQuery_Or qs)"
    and "\<And>q. shaped q \<Longrightarrow> P q \<Longrightarrow> P (TagQuery_Not q)"
    and "\<And>tag d. tag \<notin> set closed_variants \<Longrightarrow> P (TagQuery tag d)"
  shows "P q"
  using assms(1)
proof (induction q rule: nodes.induct)
  case (1 tag d)
  note IH = "1.IH" and sh = "1.prems"
  show ?case
  proof (cases "tag \<in> set closed_variants")
    case False
    then show ?thesis by (rule assms(14))
  next
    case True
    from closed_variants_cases [OF True] show ?thesis
    proof (elim disjE)
      assume t: "tag = ''Eq''"
      from sh obtain n v where "d = NameValue n v"
        unfolding t by (subst (asm) shaped_comparison) auto
      with t assms(2) [of n v] show ?thesis by (simp only: TagQuery_Eq_def)
    next
      assume t: "tag = ''Neq''"
      from sh obtain n v where "d = NameValue n v"
        unfolding t by (subst (asm) shaped_comparison) auto
      with t assms(3) [of n v] show ?thesis by (simp only: TagQuery_Neq_def)
    next
      assume t: "tag = ''Gt''"
      from sh obtain n v where "d = NameValue n v"
        unfolding t by (subst (asm) shaped_comparison) auto
      with t assms(4) [of n v] show ?thesis by (simp only: TagQuery_Gt_def)
    next
      assume t: "tag = ''Gte''"
      from sh obtain n v where "d = NameValue n v"
        unfolding t by (subst (asm) shaped_comparison) auto
      with t assms(5) [of n v] show ?thesis by (simp only: TagQuery_Gte_def)
    next
      assume t: "tag = ''Lt''"
      from sh obtain n v where "d = NameValue n v"
        unfolding t by (subst (asm) shaped_comparison) auto
      with t assms(6) [of n v] show ?thesis by (simp only: TagQuery_Lt_def)
    next
      assume t: "tag = ''Lte''"
      from sh obtain n v where "d = NameValue n v"
        unfolding t by (subst (asm) shaped_comparison) auto
      with t assms(7) [of n v] show ?thesis by (simp only: TagQuery_Lte_def)
    next
      assume t: "tag = ''Like''"
      from sh obtain n v where "d = NameValue n v"
        unfolding t by (subst (asm) shaped_comparison) auto
      with t assms(8) [of n v] show ?thesis by (simp only: TagQuery_Like_def)
    next
      assume t: "tag = ''In''"
      from sh obtain n vs where "d = NameValues n vs"
        unfolding t shaped_In by blast
      with t assms(9) [of n vs] show ?thesis by (simp only: TagQuery_In_def)
    next
      assume t: "tag = ''Exist''"
      from sh obtain ns where "d = Names ns"
        unfolding t shaped_Exist by blast
      with t assms(10) [of ns] show ?thesis by (simp only: TagQuery_Exist_def)
    next
      assume t: "tag = ''And''"
      from sh obtain qs where d: "d = Subqueries qs" and all: "list_all shaped qs"
        unfolding t shaped_And by blast
      have "P (TagQuery_And qs)"
      proof (rule assms(11))
        fix x assume x: "x \<in> set qs"
        with all have "shaped x" by (simp add: list_all_iff)
        with IH(1) [OF d x] show "shaped x \<and> P x" by simp
      qed
      with t d show ?thesis by (simp only: TagQuery_And_def)
    next
      assume t: "tag = ''Or''"
      from sh obtain qs where d: "d = Subqueries qs" and all: "list_all shaped qs"
        unfolding t shaped_Or by blast
      have "P (TagQuery_Or qs)"
      proof (rule assms(12))
        fix x assume x: "x \<in> set qs"
        with all have "shaped x" by (simp add: list_all_iff)
        with IH(1) [OF d x] show "shaped x \<and> P x" by simp
      qed
      with t d show ?thesis by (simp only: TagQuery_Or_def)
    next
      assume t: "tag = ''Not''"
      from sh obtain q' where d: "d = Subquery q'" and s': "shaped q'"
        unfolding t shaped_Not by blast
      from assms(13) [OF s' IH(2) [OF d s']] t d show ?thesis
        by (simp only: TagQuery_Not_def)
    qed
  qed
qed

lemma has_unknown_variant_node:
  "has_unknown_variant (TagQuery tag d) =
     (tag \<notin> set closed_variants \<or>
      (case d of
         Subqueries qs \<Rightarrow> \<exists>q\<in>set qs. has_unknown_variant q
       | Subquery q \<Rightarrow> has_unknown_variant q
       | _ \<Rightarrow> False))"
  by (cases d) (auto simp: has_unknown_variant_def list_ex_iff)

lemma in_closed_variants:
  "''Eq'' \<in> set closed_variants" "''Neq'' \<in> set closed_variants" "''Gt'' \<in> set closed_variants"
  "''Gte'' \<in> set closed_variants" "''Lt'' \<in> set closed_variants" "''Lte'' \<in> set closed_variants"
  "''Like'' \<in> set closed_variants" "''In'' \<in> set closed_variants"
  "''Exist'' \<in> set closed_variants" "''And'' \<in> set closed_variants"
  "''Or'' \<in> set closed_variants" "''Not'' \<in> set closed_variants"
  by (simp_all add: closed_variants_def)

lemma has_unknown_variant_factories:
  "\<not> has_unknown_variant (TagQuery_Eq n v)" "\<not> has_unknown_variant (TagQuery_Neq n v)"
  "\<not> has_unknown_variant (TagQuery_Gt n v)" "\<not> has_unknown_variant (TagQuery_Gte n v)"
  "\<not> has_unknown_variant (TagQuery_Lt n v)" "\<not> has_unknown_variant (TagQuery_Lte n v)"
  "\<not> has_unknown_variant (TagQuery_Like n v)" "\<not> has_unknown_variant (TagQuery_In n vs)"
  "\<not> has_unknown_variant (TagQuery_Exist ns)"
  "has_unknown_variant (TagQuery_And qs) = (\<exists>q\<in>set qs. has_unknown_variant q)"
  "has_unknown_variant (TagQuery_Or qs) = (\<exists>q\<in>set qs. has_unknown_variant q)"
  "has_unknown_variant (TagQuery_Not q) = has_unknown_variant q"
  by (simp_all add: has_unknown_variant_node factory_defs in_closed_variants)

lemma to_wql_dict_each_outcome:
  assumes "\<And>q. q \<in> set qs \<Longrightarrow>
             (B q \<longrightarrow> (\<exists>m. to_wql_dict q = Inl (ValueError m))) \<and>
             (\<not> B q \<longrightarrow> (\<exists>w. to_wql_dict q = Inr w))"
  shows "((\<exists>q\<in>set qs. B q) \<longrightarrow> (\<exists>m. to_wql_dict_each qs = Inl (ValueError m))) \<and>
         (\<not> (\<exists>q\<in>set qs. B q) \<longrightarrow> (\<exists>ws. to_wql_dict_each qs = Inr ws))"
  using assms
proof (induction qs)
  case Nil
  show ?case by simp
next
  case (Cons q qs)
  have hd: "(B q \<longrightarrow> (\<exists>m. to_wql_dict q = Inl (ValueError m))) \<and>
             (\<not> B q \<longrightarrow> (\<exists>w. to_wql_dict q = Inr w))"
    by (rule Cons.prems) simp
  have tl: "((\<exists>q\<in>set qs. B q) \<longrightarrow> (\<exists>m. to_wql_dict_each qs = Inl (ValueError m))) \<and>
         (\<not> (\<exists>q\<in>set qs. B q) \<longrightarrow> (\<exists>ws. to_wql_dict_each qs = Inr ws))"
    by (rule Cons.IH) (simp add: Cons.prems)
  show ?case
  proof (cases "B q")
    case True
    with hd show ?thesis by auto
  next
    case False
    with hd obtain w where w: "to_wql_dict q = Inr w" by auto
    show ?thesis
    proof (cases "\<exists>q\<in>set qs. B q")
      case True
      with tl obtain m where "to_wql_dict_each qs = Inl (ValueError m)" by auto
      with w True show ?thesis by simp
    next
      case no: False
      with tl obtain ws where "to_wql_dict_each qs = Inr ws" by auto
      with w no False show ?thesis by simp
    qed
  qed
qed

lemma to_wql_dict_outcome:
  "shaped q \<Longrightarrow>
   (has_unknown_variant q \<longrightarrow> (\<exists>m. to_wql_dict q = Inl (ValueError m))) \<and>
   (\<not> has_unknown_variant q \<longrightarrow> (\<exists>w. to_wql_dict q = Inr w))"
proof (induction q rule: shaped_induct)
  case (And qs)
  have each: "((\<exists>q\<in>set qs. has_unknown_variant q) \<longrightarrow>
           (\<exists>m. to_wql_dict_each qs = Inl (ValueError m))) \<and>
         (\<not> (\<exists>q\<in>set qs. has_unknown_variant q) \<longrightarrow> (\<exists>ws. to_wql_dict_each qs = Inr ws))"
    by (rule to_wql_dict_each_outcome) (simp add: And)
  show ?case
  proof (cases "\<exists>q\<in>set qs. has_unknown_variant q")
    case True
    with each obtain m where m: "to_wql_dict_each qs = Inl (ValueError m)" by auto
    from True have "qs \<noteq> []" by auto
    with m True show ?thesis
      by (simp add: to_wql_dict_And has_unknown_variant_factories)
  next
    case False
    with each obtain ws where "to_wql_dict_each qs = Inr ws" by auto
    with False show ?thesis
      by (simp add: to_wql_dict_And has_unknown_variant_factories)
  qed
next
  case (Or qs)
  have each: "((\<exists>q\<in>set qs. has_unknown_variant q) \<longrightarrow>
           (\<exists>m. to_wql_dict_each qs = Inl (ValueError m))) \<and>
         (\<not> (\<exists>q\<in>set qs. has_unknown_variant q) \<longrightarrow> (\<exists>ws. to_wql_dict_each qs = Inr ws))"
    by (rule to_wql_dict_each_outcome) (simp add: Or)
  show ?case
  proof (cases "\<exists>q\<in>set qs. has_unknown_variant q")
    case True
    with each obtain m where m: "to_wql_dict_each qs = Inl (ValueError m)" by auto
    from True have "qs \<noteq> []" by auto
    with m True show ?thesis
      by (simp add: to_wql_dict_Or has_unknown_variant_factories)
  next
    case False
    with each obtain ws where "to_wql_dict_each qs = Inr ws" by auto
    with False show ?thesis
      by (simp add: to_wql_dict_Or has_unknown_variant_factories)
  qed
next
  case (Not q)
  then show ?case
    by (cases "has_unknown_variant q")
       (auto simp: to_wql_dict_Not has_unknown_variant_factories)
next
  case (Unknown tag d)
  then show ?case
    by (simp add: to_wql_dict_unknown has_unknown_variant_node)
qed (simp_all add: to_wql_dict_factories has_unknown_variant_factories)

lemma encode_children_outcome:
  assumes "\<And>q s. q \<in> set qs \<Longrightarrow>
             (B q \<longrightarrow> (\<exists>m. fst (encode_query enc q negate s) = Inl (ValueError m))) \<and>
             (\<not> B q \<longrightarrow> (\<exists>c. fst (encode_query enc q negate s) = Inr c))"
  shows "((\<exists>q\<in>set qs. B q) \<longrightarrow>
            (\<exists>m. fst (encode_children enc qs negate s) = Inl (ValueError m))) \<and>
         (\<not> (\<exists>q\<in>set qs. B q) \<longrightarrow> (\<exists>rs. fst (encode_children enc qs negate s) = Inr rs))"
  using assms
proof (induction qs arbitrary: s)
  case Nil
  show ?case by simp
next
  case (Cons q qs)
  obtain r s1 where q: "encode_query enc q negate s = (r, s1)"
    by (cases "encode_query enc q negate s")
  have "(B q \<longrightarrow> (\<exists>m. fst (encode_query enc q negate s) = Inl (ValueError m))) \<and>
             (\<not> B q \<longrightarrow> (\<exists>c. fst (encode_query enc q negate s) = Inr c))"
    by (rule Cons.prems) simp
  then have hd: "(B q \<longrightarrow> (\<exists>m. r = Inl (ValueError m))) \<and> (\<not> B q \<longrightarrow> (\<exists>c. r = Inr c))"
    by (simp add: q)
  have tl: "((\<exists>q\<in>set qs. B q) \<longrightarrow>
            (\<exists>m. fst (encode_children enc qs negate s1) = Inl (ValueError m))) \<and>
         (\<not> (\<exists>q\<in>set qs. B q) \<longrightarrow> (\<exists>rs. fst (encode_children enc qs negate s1) = Inr rs))"
    by (rule Cons.IH) (simp add: Cons.prems)
  show ?case
  proof (cases "B q")
    case True
    with hd q show ?thesis by auto
  next
    case False
    with hd obtain c where c: "r = Inr c" by auto
    obtain r2 s2 where rest: "encode_children enc qs negate s1 = (r2, s2)"
      by (cases "encode_children enc qs negate s1")
    show ?thesis
    proof (cases "\<exists>q\<in>set qs. B q")
      case True
      with tl rest obtain m where "r2 = Inl (ValueError m)" by auto
      with q c rest True show ?thesis by simp
    next
      case no: False
      with tl rest obtain rs where "r2 = Inr rs" by auto
      with q c rest no False show ?thesis by simp
    qed
  qed
qed

lemma fst_returns: "fst (returns x) = Inr (fst x)"
  by (simp add: returns_def)

lemma fst_encode_conj:
  "fst (encode_conj enc cop qs negate s) =
     (case fst (encode_children enc qs negate s) of
        Inl e \<Rightarrow> Inl e
      | Inr rs \<Rightarrow> Inr (fst (encode_conj_clause enc (if negate then negate_op cop else cop)
           (surviving rs) (snd (encode_children enc qs negate s)))))"
  by (simp only: encode_conj_children) (simp add: fst_returns split: prod.splits sum.splits)

lemma encode_conj_outcome:
  assumes "\<And>q s. q \<in> set qs \<Longrightarrow>
             (B q \<longrightarrow> (\<exists>m. fst (encode_query enc q negate s) = Inl (ValueError m))) \<and>
             (\<not> B q \<longrightarrow> (\<exists>c. fst (encode_query enc q negate s) = Inr c))"
  shows "((\<exists>q\<in>set qs. B q) \<longrightarrow>
            (\<exists>m. fst (encode_conj enc cop qs negate s) = Inl (ValueError m))) \<and>
         (\<not> (\<exists>q\<in>set qs. B q) \<longrightarrow> (\<exists>c. fst (encode_conj enc cop qs negate s) = Inr c))"
proof -
  have ch: "((\<exists>q\<in>set qs. B q) \<longrightarrow>
            (\<exists>m. fst (encode_children enc qs negate s) = Inl (ValueError m))) \<and>
         (\<not> (\<exists>q\<in>set qs. B q) \<longrightarrow> (\<exists>rs. fst (encode_children enc qs negate s) = Inr rs))"
    by (rule encode_children_outcome) (rule assms)
  show ?thesis
  proof (cases "\<exists>q\<in>set qs. B q")
    case True
    with ch obtain m where "fst (encode_children enc qs negate s) = Inl (ValueError m)" by auto
    with True show ?thesis by (simp only: fst_encode_conj) simp
  next
    case False
    with ch obtain rs where "fst (encode_children enc qs negate s) = Inr rs" by auto
    with False show ?thesis by (simp only: fst_encode_conj) simp
  qed
qed

lemma encode_query_outcome:
  "shaped q \<Longrightarrow>
   (has_unknown_variant q \<longrightarrow> (\<exists>m. fst (encode_query enc q negate s) = Inl (ValueError m))) \<and>
   (\<not> has_unknown_variant q \<longrightarrow> (\<exists>c. fst (encode_query enc q negate s) = Inr c))"
proof (induction q arbitrary: negate s rule: shaped_induct)
  case (And qs)
  show ?case
    unfolding encode_query_And has_unknown_variant_factories
    by (rule encode_conj_outcome) (simp add: And)
next
  case (Or qs)
  show ?case
    unfolding encode_query_Or has_unknown_variant_factories
    by (rule encode_conj_outcome) (simp add: Or)
next
  case (Not q)
  from Not.IH [of "\<not> negate" s] show ?case
    by (simp add: encode_query_Not has_unknown_variant_factories)
next
  case (Unknown tag d)
  then show ?case
    by (simp add: encode_query_unknown has_unknown_variant_node)
qed (simp_all add: encode_query_factories fst_returns has_unknown_variant_factories)

lemma comparison_tag_closed:
  "tag \<in> set [''Eq'', ''Neq'', ''Gt'', ''Gte'', ''Lt'', ''Lte'', ''Like''] \<Longrightarrow>
   tag \<in> set closed_variants"
  unfolding closed_variants_def list.set insert_iff empty_iff by (elim disjE) simp_all

lemma factory_built_shaped: "factory_built q \<Longrightarrow> shaped q \<and> \<not> has_unknown_variant q"
proof (induction q rule: nodes.induct)
  case (1 tag d)
  note IH = "1.IH" and fb = "1.prems"
  show ?case
  proof (cases d)
    case (NameValue n v)
    with fb have t: "tag \<in> set [''Eq'', ''Neq'', ''Gt'', ''Gte'', ''Lt'', ''Lte'', ''Like'']"
      by simp
    from comparison_tag_closed [OF t] NameValue show ?thesis
      by (simp only: shaped_comparison [OF t] has_unknown_variant_node) simp
  next
    case (NameValues n vs)
    with fb have "tag = ''In''" by simp
    with NameValues show ?thesis
      by (simp only: shaped_In has_unknown_variant_node in_closed_variants) simp
  next
    case (Names ns)
    with fb have "tag = ''Exist''" by simp
    with Names show ?thesis
      by (simp only: shaped_Exist has_unknown_variant_node in_closed_variants) simp
  next
    case (Subqueries qs)
    with fb have t: "tag = ''And'' \<or> tag = ''Or''" and all: "list_all factory_built qs"
      by simp_all
    have sub: "\<And>x. x \<in> set qs \<Longrightarrow> shaped x \<and> \<not> has_unknown_variant x"
      using IH(1) [OF Subqueries] all by (simp add: list_all_iff)
    from t show ?thesis
    proof
      assume "tag = ''And''"
      with Subqueries sub show ?thesis
        by (simp only: shaped_And has_unknown_variant_node in_closed_variants)
           (simp add: list_all_iff)
    next
      assume "tag = ''Or''"
      with Subqueries sub show ?thesis
        by (simp only: shaped_Or has_unknown_variant_node in_closed_variants)
           (simp add: list_all_iff)
    qed
  next
    case (Subquery q')
    with fb have t: "tag = ''Not''" and f: "factory_built q'" by simp_all
    from IH(2) [OF Subquery f] t Subquery show ?thesis
      by (simp only: shaped_Not has_unknown_variant_node in_closed_variants) simp
  qed
qed

text \<open>
  C8 (unrecognized-variant fault). A node whose variant tag is outside the closed set
  makes \<open>to_wql_dict\<close> and \<open>encode_query\<close> raise the ValueError of the final \<open>else\<close> branch,
  before any primitive is called. On a tree whose nodes with a closed-set tag carry the
  payload of their factory, each of the two operations raises a ValueError if and only if
  some node of the tree has a tag outside the closed set. On a tree built by the
  factories alone neither operation raises: both return a result.
\<close>

theorem unrecognized_variant_fault:
  "(variant q \<notin> set closed_variants \<longrightarrow>
      to_wql_dict q = Inl (ValueError (''Unknown query variant: '' @ variant q)) \<and>
      encode_query enc q negate s = (Inl (ValueError ''Unknown query variant''), s)) \<and>
   (shaped q \<longrightarrow>
      ((\<exists>m. to_wql_dict q = Inl (ValueError m)) \<longleftrightarrow> has_unknown_variant q) \<and>
      ((\<exists>m. fst (encode_query enc q negate s) = Inl (ValueError m)) \<longleftrightarrow>
         has_unknown_variant q)) \<and>
   (factory_built q \<longrightarrow>
      (\<exists>w. to_wql_dict q = Inr w) \<and> (\<exists>c. fst (encode_query enc q negate s) = Inr c))"
proof (intro conjI impI)
  assume "variant q \<notin> set closed_variants"
  then show "to_wql_dict q = Inl (ValueError (''Unknown query variant: '' @ variant q))"
    by (cases q) (simp add: to_wql_dict_unknown)
next
  assume "variant q \<notin> set closed_variants"
  then show "encode_query enc q negate s = (Inl (ValueError ''Unknown query variant''), s)"
    by (cases q) (simp add: encode_query_unknown)
next
  assume "shaped q"
  from to_wql_dict_outcome [OF this]
  show "(\<exists>m. to_wql_dict q = Inl (ValueError m)) \<longleftrightarrow> has_unknown_variant q"
    by (cases "has_unknown_variant q") auto
next
  assume "shaped q"
  from encode_query_outcome [OF this, of enc negate s]
  show "(\<exists>m. fst (encode_query enc q negate s) = Inl (ValueError m)) \<longleftrightarrow> has_unknown_variant q"
    by (cases "has_unknown_variant q") auto
next
  assume "factory_built q"
  from factory_built_shaped [OF this] to_wql_dict_outcome [of q]
  show "\<exists>w. to_wql_dict q = Inr w" by simp
next
  assume "factory_built q"
  from factory_built_shaped [OF this] encode_query_outcome [of q enc negate s]
  show "\<exists>c. fst (encode_query enc q negate s) = Inr c" by simp
qed

theorem unrecognized_variant_fault_witness:
  "variant (TagQuery ''Bogus'' (Names [])) \<notin> set closed_variants \<and>
   to_wql_dict (TagQuery ''Bogus'' (Names [])) = Inl (ValueError ''Unknown query variant: Bogus'') \<and>
   shaped (TagQuery_And [TagQuery_Eq (TagName ''a'') ''1'', TagQuery ''Bogus'' (Names [])]) \<and>
   has_unknown_variant (TagQuery_And [TagQuery_Eq (TagName ''a'') ''1'', TagQuery ''Bogus'' (Names [])]) \<and>
   (\<exists>m. to_wql_dict (TagQuery_And [TagQuery_Eq (TagName ''a'') ''1'', TagQuery ''Bogus'' (Names [])]) =
      Inl (ValueError m)) \<and>
   factory_built (TagQuery_Not (TagQuery_Or [TagQuery_Exist [TagName ''b'']])) \<and>
   (\<exists>w. to_wql_dict (TagQuery_Not (TagQuery_Or [TagQuery_Exist [TagName ''b'']])) = Inr w)"
proof -
  have a: "variant (TagQuery ''Bogus'' (Names [])) \<notin> set closed_variants"
    by (simp add: closed_variants_def)
  have b: "shaped (TagQuery_And [TagQuery_Eq (TagName ''a'') ''1'', TagQuery ''Bogus'' (Names [])])"
    by (simp add: TagQuery_And_def TagQuery_Eq_def)
  have c: "has_unknown_variant
     (TagQuery_And [TagQuery_Eq (TagName ''a'') ''1'', TagQuery ''Bogus'' (Names [])])"
    by (simp add: has_unknown_variant_factories has_unknown_variant_node closed_variants_def)
  have d: "factory_built (TagQuery_Not (TagQuery_Or [TagQuery_Exist [TagName ''b'']]))"
    by (simp add: TagQuery_Not_def TagQuery_Or_def TagQuery_Exist_def)
  have e: "to_wql_dict (TagQuery ''Bogus'' (Names [])) =
      Inl (ValueError (''Unknown query variant: '' @ variant (TagQuery ''Bogus'' (Names []))))"
    using a unrecognized_variant_fault
      [of "TagQuery ''Bogus'' (Names [])" empty_clause_encoder False "()"]
    by blast
  have f: "\<exists>m. to_wql_dict
      (TagQuery_And [TagQuery_Eq (TagName ''a'') ''1'', TagQuery ''Bogus'' (Names [])]) =
      Inl (ValueError m)"
    using b c unrecognized_variant_fault
      [of "TagQuery_And [TagQuery_Eq (TagName ''a'') ''1'', TagQuery ''Bogus'' (Names [])]"
          empty_clause_encoder False "()"]
    by blast
  have g: "\<exists>w. to_wql_dict (TagQuery_Not (TagQuery_Or [TagQuery_Exist [TagName ''b'']])) = Inr w"
    using d unrecognized_variant_fault
      [of "TagQuery_Not (TagQuery_Or [TagQuery_Exist [TagName ''b'']])"
          empty_clause_encoder False "()"]
    by blast
  from e have e': "to_wql_dict (TagQuery ''Bogus'' (Names [])) =
      Inl (ValueError ''Unknown query variant: Bogus'')"
    by simp
  show ?thesis
    by (intro conjI a b c d e' f g)
qed

lemma canonical_cases [consumes 1, case_names Eq Neq Gt Gte Lt Lte Like In Exist And Or Not]:
  assumes "canonical q"
  obtains (Eq) n v where "q = TagQuery_Eq n v"
    | (Neq) n v where "q = TagQuery_Neq n v" "to_string n \<noteq> ''$not''"
    | (Gt) n v where "q = TagQuery_Gt n v" "to_string n \<noteq> ''$not''"
    | (Gte) n v where "q = TagQuery_Gte n v" "to_string n \<noteq> ''$not''"
    | (Lt) n v where "q = TagQuery_Lt n v" "to_string n \<noteq> ''$not''"
    | (Lte) n v where "q = TagQuery_Lte n v" "to_string n \<noteq> ''$not''"
    | (Like) n v where "q = TagQuery_Like n v" "to_string n \<noteq> ''$not''"
    | (In) n vs where "q = TagQuery_In n vs"
    | (Exist) ns where "q = TagQuery_Exist ns"
    | (And) qs where "q = TagQuery_And qs" "qs \<noteq> []" "list_all canonical qs"
    | (Or) qs where "q = TagQuery_Or qs" "qs \<noteq> []" "list_all canonical qs"
    | (Not) q' where "q = TagQuery_Not q'" "canonical q'"
proof (cases q)
  case (TagQuery tag d)
  show thesis
  proof (cases d)
    case (NameValue n v)
    with assms TagQuery
    have "tag = ''Eq'' \<or>
        (tag = ''Neq'' \<or> tag = ''Gt'' \<or> tag = ''Gte'' \<or> tag = ''Lt'' \<or> tag = ''Lte'' \<or>
         tag = ''Like'') \<and> to_string n \<noteq> ''$not''"
      by simp
    then show thesis
    proof (elim disjE conjE)
      assume "tag = ''Eq''"
      with TagQuery NameValue show thesis by (intro Eq [of n v]) (simp add: TagQuery_Eq_def)
    next
      assume "tag = ''Neq''" "to_string n \<noteq> ''$not''"
      with TagQuery NameValue show thesis by (intro Neq [of n v]) (simp_all add: TagQuery_Neq_def)
    next
      assume "tag = ''Gt''" "to_string n \<noteq> ''$not''"
      with TagQuery NameValue show thesis by (intro Gt [of n v]) (simp_all add: TagQuery_Gt_def)
    next
      assume "tag = ''Gte''" "to_string n \<noteq> ''$not''"
      with TagQuery NameValue show thesis by (intro Gte [of n v]) (simp_all add: TagQuery_Gte_def)
    next
      assume "tag = ''Lt''" "to_string n \<noteq> ''$not''"
      with TagQuery NameValue show thesis by (intro Lt [of n v]) (simp_all add: TagQuery_Lt_def)
    next
      assume "tag = ''Lte''" "to_string n \<noteq> ''$not''"
      with TagQuery NameValue show thesis by (intro Lte [of n v]) (simp_all add: TagQuery_Lte_def)
    next
      assume "tag = ''Like''" "to_string n \<noteq> ''$not''"
      with TagQuery NameValue show thesis by (intro Like [of n v]) (simp_all add: TagQuery_Like_def)
    qed
  next
    case (NameValues n vs)
    with assms TagQuery show thesis by (intro In [of n vs]) (simp add: TagQuery_In_def)
  next
    case (Names ns)
    with assms TagQuery show thesis by (intro Exist [of ns]) (simp add: TagQuery_Exist_def)
  next
    case (Subqueries qs)
    with assms TagQuery
    have t: "tag = ''And'' \<or> tag = ''Or''" and rest: "qs \<noteq> []" "list_all canonical qs"
      by simp_all
    from t show thesis
    proof
      assume "tag = ''And''"
      with TagQuery Subqueries rest show thesis
        by (intro And [of qs]) (simp_all add: TagQuery_And_def)
    next
      assume "tag = ''Or''"
      with TagQuery Subqueries rest show thesis
        by (intro Or [of qs]) (simp_all add: TagQuery_Or_def)
    qed
  next
    case (Subquery q')
    with assms TagQuery show thesis by (intro Not [of q']) (simp_all add: TagQuery_Not_def)
  qed
qed

lemma canonical_factory_built: "canonical q \<Longrightarrow> factory_built q"
proof (induction q rule: nodes.induct)
  case (1 tag d)
  note IH = "1.IH" and c = "1.prems"
  show ?case
  proof (cases d)
    case (NameValue n v)
    with c have "tag = ''Eq'' \<or>
        (tag = ''Neq'' \<or> tag = ''Gt'' \<or> tag = ''Gte'' \<or> tag = ''Lt'' \<or> tag = ''Lte'' \<or>
         tag = ''Like'') \<and> to_string n \<noteq> ''$not''"
      by simp
    then show ?thesis
      unfolding NameValue by (elim disjE conjE) simp_all
  next
    case (NameValues n vs)
    with c show ?thesis by simp
  next
    case (Names ns)
    with c show ?thesis by simp
  next
    case (Subqueries qs)
    with c have t: "tag = ''And'' \<or> tag = ''Or''" and all: "list_all canonical qs"
      by simp_all
    have "list_all factory_built qs"
      using IH(1) [OF Subqueries] all by (simp add: list_all_iff)
    with t Subqueries show ?thesis by auto
  next
    case (Subquery q')
    with c have "tag = ''Not''" "canonical q'" by simp_all
    with IH(2) [OF Subquery] Subquery show ?thesis by simp
  qed
qed

lemma canonical_serializes: "canonical q \<Longrightarrow> \<exists>w. to_wql_dict q = Inr w"
  using factory_built_shaped [OF canonical_factory_built] to_wql_dict_outcome [of q] by simp

lemma canonical_each_serializes:
  "list_all canonical qs \<Longrightarrow> \<exists>ws. to_wql_dict_each qs = Inr ws"
proof (induction qs)
  case Nil
  show ?case by simp
next
  case (Cons q qs)
  then obtain w ws where "to_wql_dict q = Inr w" "to_wql_dict_each qs = Inr ws"
    using canonical_serializes [of q] by auto
  then show ?case by simp
qed

lemma to_string_inj: "(to_string a = to_string b) = (a = b)"
  by (cases a; cases b) (simp add: to_string_def)

lemma map_names_inj:
  "(map (\<lambda>name. WStr (to_string name)) a = map (\<lambda>name. WStr (to_string name)) b) = (a = b)"
  by (rule inj_map_eq_map) (simp add: inj_def to_string_inj)

lemma map_WStr_inj: "(map WStr a = map WStr b) = (a = b)"
  by (rule inj_map_eq_map) (simp add: inj_def)

lemma canonical_not_str: "canonical q \<Longrightarrow> to_wql_dict q \<noteq> Inr (WStr v)"
  by (cases q rule: canonical_cases)
     (simp_all add: to_wql_dict_factories split: sum.splits)

lemma canonical_not_in_list:
  "canonical q \<Longrightarrow> to_wql_dict q \<noteq> Inr (WDict [(''$in'', WList xs)])"
  by (cases q rule: canonical_cases)
     (simp_all add: to_wql_dict_factories split: sum.splits)

lemma serialization_inj_Eq:
  "canonical q2 \<Longrightarrow> to_wql_dict (TagQuery_Eq n v) = to_wql_dict q2 \<Longrightarrow> TagQuery_Eq n v = q2"
  by (cases q2 rule: canonical_cases)
     (auto simp: to_wql_dict_factories to_string_inj map_names_inj map_WStr_inj canonical_not_str
          canonical_not_in_list split: sum.splits)

lemma serialization_inj_Neq:
  "canonical q2 \<Longrightarrow> to_string n \<noteq> ''$not'' \<Longrightarrow>
   to_wql_dict (TagQuery_Neq n v) = to_wql_dict q2 \<Longrightarrow> TagQuery_Neq n v = q2"
  by (cases q2 rule: canonical_cases)
     (auto simp: to_wql_dict_factories to_string_inj map_names_inj map_WStr_inj canonical_not_str
          canonical_not_in_list split: sum.splits)

lemma serialization_inj_Gt:
  "canonical q2 \<Longrightarrow> to_string n \<noteq> ''$not'' \<Longrightarrow>
   to_wql_dict (TagQuery_Gt n v) = to_wql_dict q2 \<Longrightarrow> TagQuery_Gt n v = q2"
  by (cases q2 rule: canonical_cases)
     (auto simp: to_wql_dict_factories to_string_inj map_names_inj map_WStr_inj canonical_not_str
          canonical_not_in_list split: sum.splits)

lemma serialization_inj_Gte:
  "canonical q2 \<Longrightarrow> to_string n \<noteq> ''$not'' \<Longrightarrow>
   to_wql_dict (TagQuery_Gte n v) = to_wql_dict q2 \<Longrightarrow> TagQuery_Gte n v = q2"
  by (cases q2 rule: canonical_cases)
     (auto simp: to_wql_dict_factories to_string_inj map_names_inj map_WStr_inj canonical_not_str
          canonical_not_in_list split: sum.splits)

lemma serialization_inj_Lt:
  "canonical q2 \<Longrightarrow> to_string n \<noteq> ''$not'' \<Longrightarrow>
   to_wql_dict (TagQuery_Lt n v) = to_wql_dict q2 \<Longrightarrow> TagQuery_Lt n v = q2"
  by (cases q2 rule: canonical_cases)
     (auto simp: to_wql_dict_factories to_string_inj map_names_inj map_WStr_inj canonical_not_str
          canonical_not_in_list split: sum.splits)

lemma serialization_inj_Lte:
  "canonical q2 \<Longrightarrow> to_string n \<noteq> ''$not'' \<Longrightarrow>
   to_wql_dict (TagQuery_Lte n v) = to_wql_dict q2 \<Longrightarrow> TagQuery_Lte n v = q2"
  by (cases q2 rule: canonical_cases)
     (auto simp: to_wql_dict_factories to_string_inj map_names_inj map_WStr_inj canonical_not_str
          canonical_not_in_list split: sum.splits)

lemma serialization_inj_Like:
  "canonical q2 \<Longrightarrow> to_string n \<noteq> ''$not'' \<Longrightarrow>
   to_wql_dict (TagQuery_Like n v) = to_wql_dict q2 \<Longrightarrow> TagQuery_Like n v = q2"
  by (cases q2 rule: canonical_cases)
     (auto simp: to_wql_dict_factories to_string_inj map_names_inj map_WStr_inj canonical_not_str
          canonical_not_in_list split: sum.splits)

lemma serialization_inj_In:
  "canonical q2 \<Longrightarrow> to_wql_dict (TagQuery_In n vs) = to_wql_dict q2 \<Longrightarrow> TagQuery_In n vs = q2"
  by (cases q2 rule: canonical_cases)
     (auto simp: to_wql_dict_factories to_string_inj map_names_inj map_WStr_inj canonical_not_str
          canonical_not_in_list split: sum.splits)

lemma serialization_inj_Exist:
  "canonical q2 \<Longrightarrow> to_wql_dict (TagQuery_Exist ns) = to_wql_dict q2 \<Longrightarrow> TagQuery_Exist ns = q2"
  by (cases q2 rule: canonical_cases)
     (auto simp: to_wql_dict_factories to_string_inj map_names_inj map_WStr_inj canonical_not_str
          canonical_not_in_list split: sum.splits)

lemma to_wql_dict_each_inj:
  assumes "\<And>x y. x \<in> set qs1 \<Longrightarrow> canonical y \<Longrightarrow> to_wql_dict x = to_wql_dict y \<Longrightarrow> x = y"
    and "list_all canonical qs2"
    and "to_wql_dict_each qs1 = Inr ws"
    and "to_wql_dict_each qs2 = Inr ws"
  shows "qs1 = qs2"
  using assms
proof (induction qs1 arbitrary: qs2 ws)
  case Nil
  then show ?case
    by (cases qs2) (auto split: sum.splits)
next
  case (Cons x xs)
  from Cons.prems(3) obtain w ws' where
    x: "to_wql_dict x = Inr w" and xs: "to_wql_dict_each xs = Inr ws'" and ws: "ws = w # ws'"
    by (auto split: sum.splits)
  from Cons.prems(4) ws obtain y ys where
    qs2: "qs2 = y # ys" and y: "to_wql_dict y = Inr w" and ys: "to_wql_dict_each ys = Inr ws'"
    by (cases qs2) (auto split: sum.splits)
  from Cons.prems(2) qs2 have cy: "canonical y" and cys: "list_all canonical ys"
    by simp_all
  have "x = y"
    by (rule Cons.prems(1)) (simp_all add: cy x y)
  moreover have "xs = ys"
    by (rule Cons.IH [OF _ cys xs ys]) (rule Cons.prems(1), simp_all)
  ultimately show ?case by (simp add: qs2)
qed

lemma serialization_inj_And:
  assumes "\<And>x y. x \<in> set qs \<Longrightarrow> canonical y \<Longrightarrow> to_wql_dict x = to_wql_dict y \<Longrightarrow> x = y"
    and "qs \<noteq> []" and "list_all canonical qs" and "canonical q2"
    and "to_wql_dict (TagQuery_And qs) = to_wql_dict q2"
  shows "TagQuery_And qs = q2"
proof -
  from canonical_each_serializes [OF assms(3)] obtain ws where ws: "to_wql_dict_each qs = Inr ws"
    by blast
  with assms(2,5) have d: "to_wql_dict q2 = Inr (WDict [(''$and'', WList ws)])"
    by (simp add: to_wql_dict_And)
  from assms(4) show ?thesis
  proof (cases q2 rule: canonical_cases)
    case (And qs2)
    with d have "to_wql_dict_each qs2 = Inr ws"
      by (auto simp: to_wql_dict_And split: sum.splits)
    with assms(1) And(3) ws have "qs = qs2"
      by (rule to_wql_dict_each_inj)
    with And show ?thesis by simp
  qed (use d in \<open>auto simp: to_wql_dict_factories split: sum.splits\<close>)
qed

lemma serialization_inj_Or:
  assumes "\<And>x y. x \<in> set qs \<Longrightarrow> canonical y \<Longrightarrow> to_wql_dict x = to_wql_dict y \<Longrightarrow> x = y"
    and "qs \<noteq> []" and "list_all canonical qs" and "canonical q2"
    and "to_wql_dict (TagQuery_Or qs) = to_wql_dict q2"
  shows "TagQuery_Or qs = q2"
proof -
  from canonical_each_serializes [OF assms(3)] obtain ws where ws: "to_wql_dict_each qs = Inr ws"
    by blast
  with assms(2,5) have d: "to_wql_dict q2 = Inr (WDict [(''$or'', WList ws)])"
    by (simp add: to_wql_dict_Or)
  from assms(4) show ?thesis
  proof (cases q2 rule: canonical_cases)
    case (Or qs2)
    with d have "to_wql_dict_each qs2 = Inr ws"
      by (auto simp: to_wql_dict_Or split: sum.splits)
    with assms(1) Or(3) ws have "qs = qs2"
      by (rule to_wql_dict_each_inj)
    with Or show ?thesis by simp
  qed (use d in \<open>auto simp: to_wql_dict_factories split: sum.splits\<close>)
qed

lemma serialization_inj_Not:
  assumes "\<And>y. canonical y \<Longrightarrow> to_wql_dict q = to_wql_dict y \<Longrightarrow> q = y"
    and "canonical q" and "canonical q2"
    and "to_wql_dict (TagQuery_Not q) = to_wql_dict q2"
  shows "TagQuery_Not q = q2"
proof -
  from canonical_serializes [OF assms(2)] obtain w where w: "to_wql_dict q = Inr w"
    by blast
  with assms(4) have d: "to_wql_dict q2 = Inr (WDict [(''$not'', w)])"
    by (simp add: to_wql_dict_Not)
  from assms(3) show ?thesis
  proof (cases q2 rule: canonical_cases)
    case (Not q')
    with d have "to_wql_dict q' = Inr w"
      by (auto simp: to_wql_dict_Not split: sum.splits)
    with assms(1) [OF Not(2)] w have "q = q'" by simp
    with Not show ?thesis by simp
  next
    case (Eq n v)
    with d w assms(2) show ?thesis
      by (auto simp: to_wql_dict_factories canonical_not_str)
  next
    case (In n vs)
    with d w assms(2) show ?thesis
      by (auto simp: to_wql_dict_factories canonical_not_in_list)
  qed (use d in \<open>auto simp: to_wql_dict_factories split: sum.splits\<close>)
qed

text \<open>
  C4 (one-to-one serialization), as amended. Two trees built by the factories in which
  every And/Or has at least one subquery and no Neq/Gt/Gte/Lt/Lte/Like node has the tag
  name \<open>$not\<close> are equal whenever \<open>to_wql_dict\<close> gives them the same mapping. (Every
  mapping built has at most one key, so equality of the key-value lists is equality of
  the mappings.)
\<close>

theorem serialization_one_to_one:
  "canonical q1 \<Longrightarrow> canonical q2 \<Longrightarrow> to_wql_dict q1 = to_wql_dict q2 \<Longrightarrow> q1 = q2"
proof (induction q1 arbitrary: q2 rule: nodes.induct)
  case (1 tag d)
  note IH = "1.IH" and c1 = "1.prems"(1) and c2 = "1.prems"(2) and eq = "1.prems"(3)
  from c1 show ?case
  proof (cases rule: canonical_cases)
    case (Eq n v)
    from eq have "to_wql_dict (TagQuery_Eq n v) = to_wql_dict q2"
      by (simp only: Eq(1))
    with c2 have "TagQuery_Eq n v = q2"
      by (rule serialization_inj_Eq)
    then show ?thesis by (simp only: Eq(1))
  next
    case (Neq n v)
    from eq have "to_wql_dict (TagQuery_Neq n v) = to_wql_dict q2"
      by (simp only: Neq(1))
    with c2 Neq(2) have "TagQuery_Neq n v = q2"
      by (rule serialization_inj_Neq)
    then show ?thesis by (simp only: Neq(1))
  next
    case (Gt n v)
    from eq have "to_wql_dict (TagQuery_Gt n v) = to_wql_dict q2"
      by (simp only: Gt(1))
    with c2 Gt(2) have "TagQuery_Gt n v = q2"
      by (rule serialization_inj_Gt)
    then show ?thesis by (simp only: Gt(1))
  next
    case (Gte n v)
    from eq have "to_wql_dict (TagQuery_Gte n v) = to_wql_dict q2"
      by (simp only: Gte(1))
    with c2 Gte(2) have "TagQuery_Gte n v = q2"
      by (rule serialization_inj_Gte)
    then show ?thesis by (simp only: Gte(1))
  next
    case (Lt n v)
    from eq have "to_wql_dict (TagQuery_Lt n v) = to_wql_dict q2"
      by (simp only: Lt(1))
    with c2 Lt(2) have "TagQuery_Lt n v = q2"
      by (rule serialization_inj_Lt)
    then show ?thesis by (simp only: Lt(1))
  next
    case (Lte n v)
    from eq have "to_wql_dict (TagQuery_Lte n v) = to_wql_dict q2"
      by (simp only: Lte(1))
    with c2 Lte(2) have "TagQuery_Lte n v = q2"
      by (rule serialization_inj_Lte)
    then show ?thesis by (simp only: Lte(1))
  next
    case (Like n v)
    from eq have "to_wql_dict (TagQuery_Like n v) = to_wql_dict q2"
      by (simp only: Like(1))
    with c2 Like(2) have "TagQuery_Like n v = q2"
      by (rule serialization_inj_Like)
    then show ?thesis by (simp only: Like(1))
  next
    case (In n vs)
    from eq have "to_wql_dict (TagQuery_In n vs) = to_wql_dict q2"
      by (simp only: In(1))
    with c2 have "TagQuery_In n vs = q2"
      by (rule serialization_inj_In)
    then show ?thesis by (simp only: In(1))
  next
    case (Exist ns)
    from eq have "to_wql_dict (TagQuery_Exist ns) = to_wql_dict q2"
      by (simp only: Exist(1))
    with c2 have "TagQuery_Exist ns = q2"
      by (rule serialization_inj_Exist)
    then show ?thesis by (simp only: Exist(1))
  next
    case (And qs)
    then have d: "d = Subqueries qs" by (simp add: TagQuery_And_def)
    have "TagQuery_And qs = q2"
    proof (rule serialization_inj_And)
      fix x y assume "x \<in> set qs" "canonical y" "to_wql_dict x = to_wql_dict y"
      with IH(1) [OF d] And(3) show "x = y" by (simp add: list_all_iff)
    qed (use And c2 eq in simp_all)
    with And show ?thesis by simp
  next
    case (Or qs)
    then have d: "d = Subqueries qs" by (simp add: TagQuery_Or_def)
    have "TagQuery_Or qs = q2"
    proof (rule serialization_inj_Or)
      fix x y assume "x \<in> set qs" "canonical y" "to_wql_dict x = to_wql_dict y"
      with IH(1) [OF d] Or(3) show "x = y" by (simp add: list_all_iff)
    qed (use Or c2 eq in simp_all)
    with Or show ?thesis by simp
  next
    case (Not q')
    then have d: "d = Subquery q'" by (simp add: TagQuery_Not_def)
    have "TagQuery_Not q' = q2"
    proof (rule serialization_inj_Not)
      fix y assume "canonical y" "to_wql_dict q' = to_wql_dict y"
      with IH(2) [OF d] Not(2) show "q' = y" by simp
    qed (use Not c2 eq in simp_all)
    with Not show ?thesis by simp
  qed
qed

text \<open>
  C4 as stated fails: \<open>And([])\<close> and \<open>Or([])\<close> are different trees with the same mapping,
  the empty one; so are \<open>Neq(TagName("$not"), "v")\<close> and \<open>Not(Eq(TagName("$neq"), "v"))\<close>.
\<close>

theorem serialization_collision:
  "TagQuery_And [] \<noteq> TagQuery_Or [] \<and>
   to_wql_dict (TagQuery_And []) = to_wql_dict (TagQuery_Or []) \<and>
   TagQuery_Neq (TagName ''$not'') ''v'' \<noteq> TagQuery_Not (TagQuery_Eq (TagName ''$neq'') ''v'') \<and>
   to_wql_dict (TagQuery_Neq (TagName ''$not'') ''v'') =
     to_wql_dict (TagQuery_Not (TagQuery_Eq (TagName ''$neq'') ''v''))"
proof (intro conjI)
  show "TagQuery_And [] \<noteq> TagQuery_Or []"
    by (simp add: TagQuery_And_def TagQuery_Or_def)
  show "to_wql_dict (TagQuery_And []) = to_wql_dict (TagQuery_Or [])"
    by (simp add: to_wql_dict_And to_wql_dict_Or)
  show "TagQuery_Neq (TagName ''$not'') ''v'' \<noteq> TagQuery_Not (TagQuery_Eq (TagName ''$neq'') ''v'')"
    by (simp add: TagQuery_Neq_def TagQuery_Not_def)
  show "to_wql_dict (TagQuery_Neq (TagName ''$not'') ''v'') =
     to_wql_dict (TagQuery_Not (TagQuery_Eq (TagName ''$neq'') ''v''))"
    by (simp add: to_wql_dict_Neq to_wql_dict_Not to_wql_dict_Eq to_string_def)
qed

theorem serialization_one_to_one_witness:
  "canonical (TagQuery_Eq (TagName ''a'') ''1'') \<and>
   canonical (TagQuery_Neq (TagName ''a'') ''1'') \<and>
   to_wql_dict (TagQuery_Eq (TagName ''a'') ''1'') \<noteq> to_wql_dict (TagQuery_Neq (TagName ''a'') ''1'')"
  using serialization_one_to_one
    [of "TagQuery_Eq (TagName ''a'') ''1''" "TagQuery_Neq (TagName ''a'') ''1''"]
  by (auto simp: TagQuery_Eq_def TagQuery_Neq_def to_string_def)

section \<open>Properties of the legacy adapter\<close>

text \<open>
  C3 (legacy marker stripping). What the adapter does on the keys of the claim: the key
  \<open>~~name\<close> becomes the tag name \<open>name\<close>, not \<open>~name\<close>, in a comparison, a membership and an
  existence node, since \<open>lstrip\<close> removes every leading marker; the keys \<open>~name\<close> and
  \<open>name\<close> both become \<open>name\<close>.
\<close>

theorem lstrip_removes_every_marker:
  "query_to_tagquery (EqQuery ''~~name'' ''v'') = Inr (TagQuery_Eq (TagName ''name'') ''v'') \<and>
   query_to_tagquery (EqQuery ''~~name'' ''v'') \<noteq> Inr (TagQuery_Eq (TagName ''~name'') ''v'') \<and>
   query_to_tagquery (InQuery ''~~name'' [''v'']) = Inr (TagQuery_In (TagName ''name'') [''v'']) \<and>
   query_to_tagquery (ExistQuery [''~~name'']) = Inr (TagQuery_Exist [TagName ''name'']) \<and>
   query_to_tagquery (EqQuery ''~name'' ''v'') = Inr (TagQuery_Eq (TagName ''name'') ''v'') \<and>
   query_to_tagquery (EqQuery ''name'' ''v'') = Inr (TagQuery_Eq (TagName ''name'') ''v'')"
  by (simp add: lstrip_def TagQuery_Eq_def)

section \<open>Properties of the Key placeholder\<close>

text \<open>
  C10 (Key placeholder). For all arguments, the key constructors \<open>generate\<close>, \<open>from_seed\<close>,
  \<open>from_secret_bytes\<close>, \<open>from_public_bytes\<close>, \<open>from_jwk\<close> and the methods \<open>convert_key\<close>,
  \<open>key_exchange\<close>, \<open>sign_message\<close>, \<open>verify_signature\<close> raise NotImplementedError, while
  \<open>aead_encrypt\<close>, \<open>aead_decrypt\<close>, \<open>wrap_key\<close>, \<open>unwrap_key\<close>, \<open>get_public_bytes\<close>,
  \<open>get_secret_bytes\<close> and the JWK getters return a fixed placeholder that does not depend
  on their arguments.
\<close>

theorem key_placeholder_behaviour:
  "generate alg ephemeral =
     Inl (NotImplementedError ''Key generation is not available without bindings.'') \<and>
   from_seed alg seed method =
     Inl (NotImplementedError ''Key creation from seed is not available without bindings.'') \<and>
   from_secret_bytes alg secret =
     Inl (NotImplementedError ''Key creation from secret bytes is not available without bindings.'') \<and>
   from_public_bytes alg public =
     Inl (NotImplementedError ''Key creation from public bytes is not available without bindings.'') \<and>
   from_jwk jwk =
     Inl (NotImplementedError ''Key creation from JWK is not available without bindings.'') \<and>
   convert_key self alg =
     Inl (NotImplementedError ''Key conversion is not available without bindings.'') \<and>
   key_exchange self alg pk =
     Inl (NotImplementedError ''Key exchange is not available without bindings.'') \<and>
   sign_message self message sig_type =
     Inl (NotImplementedError ''Message signing is not available without bindings.'') \<and>
   verify_signature self message signature sig_type =
     Inl (NotImplementedError ''Signature verification is not available without bindings.'') \<and>
   aead_encrypt self message nonce aad = Inr ''Encrypted placeholder'' \<and>
   aead_decrypt self ciphertext nonce' tag aad = Inr ''decrypted placeholder'' \<and>
   wrap_key self other nonce = Inr ''Encrypted placeholder'' \<and>
   unwrap_key self alg ciphertext nonce tag = Inr (Key (Inl ''placeholder handle'')) \<and>
   get_public_bytes self = Inr ''public_bytes_placeholder'' \<and>
   get_secret_bytes self = Inr ''secret_bytes_placeholder'' \<and>
   get_jwk_public self alg_opt = Inr ''jwk_public_placeholder'' \<and>
   get_jwk_secret self = Inr ''jwk_secret_placeholder'' \<and>
   get_jwk_thumbprint self alg_opt = Inr ''jwk_thumbprint_placeholder''"
  unfolding generate_def from_seed_def from_secret_bytes_def from_public_bytes_def from_jwk_def
    convert_key_def key_exchange_def sign_message_def verify_signature_def aead_encrypt_def
    aead_decrypt_def wrap_key_def unwrap_key_def get_public_bytes_def get_secret_bytes_def
    get_jwk_public_def get_jwk_secret_def get_jwk_thumbprint_def
  by (intro conjI refl)

end
